theory Spec2Isabelle
  imports Complex_Main
begin

section \<open>Values exchanged with the collaborators\<close>

text \<open>
  The agent strategy of \<^verbatim>\<open>strategies/ReAct.py\<close> moves JSON-shaped Python values between
  the model, the tools and the log. A Python \<^verbatim>\<open>dict\<close> keeps its insertion order, so it is
  an association list with unique keys. Numbers are integers here: no branch of the code
  looks at a number.
\<close>

datatype json =
    JNull
  | JBool bool
  | JInt int
  | JStr string
  | JArr "json list"
  | JObj "(string \<times> json) list"

type_synonym dict = "(string \<times> json) list"

text \<open>Exceptions are values: the class of the exception and \<^verbatim>\<open>str(e)\<close>.\<close>

datatype exc_kind = ValueError | KeyError | TypeError | AttributeError | ValidationError | OtherError

datatype exn = Exn exc_kind string

fun exc_str :: "exn \<Rightarrow> string" where
  "exc_str (Exn k m) = m"

definition squote :: "string \<Rightarrow> string" where
  "squote s = CHR 0x27 # s @ [CHR 0x27]"

text \<open>\<^verbatim>\<open>d.get(k)\<close>, \<^verbatim>\<open>d[k]\<close> (a missing key raises \<^verbatim>\<open>KeyError(k)\<close>, whose text is the
  key's \<^verbatim>\<open>repr\<close>; the code only subscripts with the literals \<^verbatim>\<open>type\<close>, \<^verbatim>\<open>text\<close> and
  \<^verbatim>\<open>resource\<close>), \<^verbatim>\<open>d[k] = v\<close> and \<^verbatim>\<open>{**a, **b}\<close>.\<close>

definition dict_get :: "dict \<Rightarrow> string \<Rightarrow> json option" where
  "dict_get d k = map_of d k"

definition subscript :: "dict \<Rightarrow> string \<Rightarrow> exn + json" where
  "subscript d k = (case map_of d k of None \<Rightarrow> Inl (Exn KeyError (squote k)) | Some v \<Rightarrow> Inr v)"

fun dict_set :: "dict \<Rightarrow> string \<Rightarrow> json \<Rightarrow> dict" where
  "dict_set [] k v = [(k, v)]"
| "dict_set ((k', v') # d) k v = (if k' = k then (k, v) # d else (k', v') # dict_set d k v)"

definition dict_merge :: "dict \<Rightarrow> dict \<Rightarrow> dict" where
  "dict_merge a b = foldl (\<lambda>d (k, v). dict_set d k v) a b"

text \<open>The name of a value's Python type, as it appears in a \<^verbatim>\<open>TypeError\<close>.\<close>

fun type_name :: "json \<Rightarrow> string" where
  "type_name JNull = ''NoneType''"
| "type_name (JBool b) = ''bool''"
| "type_name (JInt i) = ''int''"
| "type_name (JStr s) = ''str''"
| "type_name (JArr xs) = ''list''"
| "type_name (JObj d) = ''dict''"

definition none_has_no_attribute :: "string \<Rightarrow> exn" where
  "none_has_no_attribute a =
     Exn AttributeError (squote ''NoneType'' @ '' object has no attribute '' @ squote a)"

section \<open>Tools, actions and tool responses\<close>

datatype ToolParameterForm = SCHEMA | FORM | LLM

record ToolParameter =
  tp_name :: string
  tp_form :: ToolParameterForm

record ToolEntity =
  identity_name :: string
  identity_provider :: string
  parameters :: "ToolParameter list"
  runtime_parameters :: dict
  provider_type :: string

text \<open>\<^verbatim>\<open>AgentScratchpadUnit.Action\<close>: \<^verbatim>\<open>action_input\<close> is declared \<^verbatim>\<open>Union[dict, str]\<close>.\<close>

datatype action_input = StrInput string | DictInput dict

fun json_of_input :: "action_input \<Rightarrow> json" where
  "json_of_input (StrInput s) = JStr s"
| "json_of_input (DictInput d) = JObj d"

record Action =
  action_name :: string
  action_input :: action_input

text \<open>A \<^verbatim>\<open>ToolInvokeMessage\<close> of the local tool runtime, by its \<^verbatim>\<open>type\<close>: the text of a
  text or link message, the object of a JSON message, and for every other type the
  \<^verbatim>\<open>repr\<close> of its message.\<close>

datatype ToolInvokeMessage =
    TEXT string
  | LINK string
  | IMAGE_LINK string
  | IMAGE string
  | JSON json
  | OTHER string

text \<open>The remote-protocol client (\<^verbatim>\<open>McpClients.execute_tool\<close>) takes a tool name and the
  arguments and returns a list of content items, each a \<^verbatim>\<open>dict\<close>, or raises.\<close>

type_synonym mcp_execute = "string \<Rightarrow> json \<Rightarrow> exn + dict list"

text \<open>The library and session calls the dispatcher makes: \<^verbatim>\<open>json.loads\<close> (\<open>Inl\<close> is
  \<^verbatim>\<open>JSONDecodeError\<close> with its text), \<^verbatim>\<open>json.dumps(_, ensure_ascii=False)\<close>, and
  \<^verbatim>\<open>session.tool.invoke\<close> with the provider type, the provider, the tool name and the
  parameters (a failure anywhere in its stream, or of \<^verbatim>\<open>ToolProviderType(_)\<close>, is \<open>Inl\<close>).\<close>

record session =
  json_loads :: "string \<Rightarrow> string + json"
  json_dumps :: "json \<Rightarrow> string"
  tool_invoke :: "string \<Rightarrow> string \<Rightarrow> string \<Rightarrow> dict \<Rightarrow> exn + ToolInvokeMessage list"

section \<open>The action dispatcher: \<^verbatim>\<open>_handle_invoke_action\<close>\<close>

text \<open>Truthiness of \<^verbatim>\<open>mcp_tool_instances.get(name)\<close>: \<^verbatim>\<open>None\<close> and the empty dict are
  false. A \<^verbatim>\<open>ToolEntity\<close> is always true, so \<^verbatim>\<open>not tool_instance\<close> is \<open>= None\<close>.\<close>

fun truthy_dict :: "dict option \<Rightarrow> bool" where
  "truthy_dict None = False"
| "truthy_dict (Some d) = (d \<noteq> [])"

text \<open>Lines 495-506: a text input is decoded; when that fails, the names of the local
  tool's LLM-form parameters decide.\<close>

definition llm_params :: "ToolEntity \<Rightarrow> string list" where
  "llm_params tool = map tp_name (filter (\<lambda>param. tp_form param = LLM) (parameters tool))"

definition coerce_tool_call_args ::
  "'a session_scheme \<Rightarrow> ToolEntity option \<Rightarrow> action_input \<Rightarrow> exn + json" where
  "coerce_tool_call_args rt tool_instance tool_call_args =
     (case tool_call_args of
        DictInput d \<Rightarrow> Inr (JObj d)
      | StrInput s \<Rightarrow>
          (case json_loads rt s of
             Inr v \<Rightarrow> Inr v
           | Inl decode_error \<Rightarrow>
               (case tool_instance of
                  None \<Rightarrow> Inl (none_has_no_attribute ''parameters'')
                | Some tool \<Rightarrow>
                    (let params = llm_params tool in
                     if length params > 1
                     then Inl (Exn ValueError ''tool call args is not a valid json string'')
                     else Inr (if length params = 1 then JObj [(params ! 0, JStr s)]
                               else JObj [])))))"

text \<open>Lines 517-528: one content item is rendered by its type, anything else as a list.\<close>

definition render_mcp_content :: "'a session_scheme \<Rightarrow> dict list \<Rightarrow> exn + json" where
  "render_mcp_content rt content =
     (if length content = 1 then
        (let item = content ! 0 in
         case subscript item ''type'' of
           Inl e \<Rightarrow> Inl e
         | Inr t \<Rightarrow>
             if t = JStr ''text'' then subscript item ''text''
             else if t = JStr ''image'' \<or> t = JStr ''video''
               then Inr (JStr (json_dumps rt (JObj item)))
             else if t = JStr ''resource''
               then (case subscript item ''resource'' of
                       Inl e \<Rightarrow> Inl e
                     | Inr r \<Rightarrow> Inr (JStr (json_dumps rt r)))
             else Inr (JStr (json_dumps rt (JObj item))))
      else Inr (JStr (json_dumps rt (JArr (map JObj content)))))"

text \<open>Lines 538-564: the responses of a local tool are concatenated.\<close>

fun render_response :: "'a session_scheme \<Rightarrow> ToolInvokeMessage \<Rightarrow> string" where
  "render_response rt (TEXT t) = t"
| "render_response rt (LINK t) = ''result link: '' @ t @ ''.'' @ '' please tell user to check it.''"
| "render_response rt (IMAGE_LINK m) =
     ''image has been created and sent to user already, ''
     @ ''you do not need to create it, just tell the user to check it now.''"
| "render_response rt (IMAGE m) =
     ''image has been created and sent to user already, ''
     @ ''you do not need to create it, just tell the user to check it now.''"
| "render_response rt (JSON obj) = ''tool response: '' @ json_dumps rt obj @ ''.''"
| "render_response rt (OTHER r) = ''tool response: '' @ r @ ''.''"

definition render_tool_responses :: "'a session_scheme \<Rightarrow> ToolInvokeMessage list \<Rightarrow> string" where
  "render_tool_responses rt responses = foldl (\<lambda>result response. result @ render_response rt response) [] responses"

text \<open>Lines 508-564, the body of the \<^verbatim>\<open>try\<close>: what it raises or computes, and the value of
  \<^verbatim>\<open>tool_invoke_parameters\<close> when it is left.\<close>

definition invoke_resolved ::
  "'a session_scheme \<Rightarrow> mcp_execute option \<Rightarrow> ToolEntity option \<Rightarrow> dict option \<Rightarrow> string \<Rightarrow> json
     \<Rightarrow> (exn + json) \<times> json" where
  "invoke_resolved rt mcp_clients tool_instance mcp_tool_instance tool_call_name tool_call_args =
     (if truthy_dict mcp_tool_instance then
        (case mcp_clients of
           None \<Rightarrow> (Inl (none_has_no_attribute ''execute_tool''), tool_call_args)
         | Some execute_tool \<Rightarrow>
             (case execute_tool tool_call_name tool_call_args of
                Inl e \<Rightarrow> (Inl e, tool_call_args)
              | Inr content \<Rightarrow> (render_mcp_content rt content, tool_call_args)))
      else
        (case tool_instance of
           None \<Rightarrow> (Inl (none_has_no_attribute ''runtime_parameters''), JObj [])
         | Some tool \<Rightarrow>
             (case tool_call_args of
                JObj d \<Rightarrow>
                  (let tool_invoke_parameters = dict_merge (runtime_parameters tool) d in
                   case tool_invoke rt (provider_type tool) (identity_provider tool)
                          (identity_name tool) tool_invoke_parameters of
                     Inl e \<Rightarrow> (Inl e, JObj tool_invoke_parameters)
                   | Inr responses \<Rightarrow>
                       (Inr (JStr (render_tool_responses rt responses)),
                        JObj tool_invoke_parameters))
              | v \<Rightarrow>
                  (Inl (Exn TypeError (squote (type_name v) @ '' object is not a mapping'')),
                   JObj []))))"

text \<open>The whole function. \<open>Inl\<close> is an exception that leaves it; \<open>Inr\<close> is the returned
  pair of the observation and the parameters.\<close>

definition handle_invoke_action ::
  "'a session_scheme \<Rightarrow> Action \<Rightarrow> mcp_execute option \<Rightarrow> (string \<rightharpoonup> ToolEntity)
     \<Rightarrow> (string \<rightharpoonup> dict) \<Rightarrow> exn + (json \<times> json)" where
  "handle_invoke_action rt action mcp_clients tool_instances mcp_tool_instances =
     (let tool_call_name = action_name action;
          tool_call_args = action_input action;
          tool_instance = tool_instances tool_call_name;
          mcp_tool_instance = mcp_tool_instances tool_call_name
      in
      if tool_instance = None \<and> \<not> truthy_dict mcp_tool_instance then
        Inr (JStr (''there is not a tool named '' @ tool_call_name), json_of_input tool_call_args)
      else
        (case coerce_tool_call_args rt tool_instance tool_call_args of
           Inl e \<Rightarrow> Inl e
         | Inr args \<Rightarrow>
             (case invoke_resolved rt mcp_clients tool_instance mcp_tool_instance
                     tool_call_name args of
                (Inl e, tool_invoke_parameters) \<Rightarrow>
                  Inr (JStr (''tool invoke error: '' @ exc_str e), tool_invoke_parameters)
              | (Inr result, tool_invoke_parameters) \<Rightarrow>
                  Inr (result, tool_invoke_parameters))))"

section \<open>The reasoning loop: \<^verbatim>\<open>_invoke\<close>\<close>

subsection \<open>Parameters, scratchpad and messages\<close>

text \<open>\<^verbatim>\<open>ReActParams\<close> after validation. Of the model configuration the code reads the
  provider, the model name and \<^verbatim>\<open>completion_params.get("stop")\<close>, a list of stop
  sequences (\<open>None\<close> when there are no completion parameters or no such key; the default
  is then the empty list). \<^verbatim>\<open>maximum_iterations\<close> is declared \<^verbatim>\<open>int = 3\<close>, with no
  bound.\<close>

record AgentModelConfig =
  provider :: string
  model_name :: string
  stop_param :: "string list option"

record ReActParams =
  query :: string
  instruction :: string
  model :: AgentModelConfig
  tools :: "ToolEntity list option"
  mcp_servers_config :: "string option"
  mcp_resources_as_tools :: bool
  mcp_prompts_as_tools :: bool
  maximum_iterations :: int

text \<open>Of \<^verbatim>\<open>LLMUsage\<close> the code reads the total price (a \<^verbatim>\<open>Decimal\<close>), the currency and
  the total of tokens.\<close>

record LLMUsage =
  total_price :: rat
  currency :: string
  total_tokens :: int

record AgentScratchpadUnit =
  su_agent_response :: json
  su_thought :: string
  su_action_str :: string
  su_observation :: json
  su_action :: "Action option"

record PromptMessageTool =
  pt_name :: string
  pt_description :: string
  pt_parameters :: json

text \<open>What the output parser hands over for one model call: text chunks and parsed
  actions.\<close>

datatype chunk = TextChunk string | ActionChunk Action

text \<open>The messages the generator yields, in order: the log of a round (\<^verbatim>\<open>ROUND i\<close>), of
  the model call and of a tool call (\<^verbatim>\<open>CALL name\<close>), each started and finished under its
  round, then the final text and the usage summary (total price, currency, total of
  tokens). Timing metadata is left out.\<close>

datatype message =
    RoundStart int
  | ThoughtStart int
  | ThoughtFinish int string json
  | ToolCallStart int string
  | ToolCallFinish int string json json
  | RoundFinish int string json string json
  | TextMessage string
  | JsonMessage rat string int

text \<open>The rounds a list of messages opens, in order.\<close>

fun rounds_started :: "message list \<Rightarrow> int list" where
  "rounds_started [] = []"
| "rounds_started (RoundStart i # ms) = i # rounds_started ms"
| "rounds_started (m # ms) = rounds_started ms"

text \<open>The remote-protocol client once constructed: its tool list, its execution call and
  whether \<^verbatim>\<open>close()\<close> raises.\<close>

record McpClients =
  fetch_tools :: "exn + dict list"
  execute_tool :: mcp_execute
  close :: "exn option"

text \<open>The collaborators of the loop, beside those of the dispatcher:
  \<^verbatim>\<open>json.dumps\<close> with its defaults; the model call together with the output parser, which
  sees the parameters, the stop sequences, the tool catalogue and the scratchpad (the
  prompt is assembled from these) and gives the chunks and the \<^verbatim>\<open>usage\<close> slot (\<open>None\<close>:
  the key is absent), or raises while the stream is read; \<^verbatim>\<open>increase_usage\<close>;
  \<^verbatim>\<open>_init_prompt_tools\<close> and \<^verbatim>\<open>update_prompt_message_tool\<close> of the base class; the
  constructors \<^verbatim>\<open>McpClients(config, resources, prompts)\<close> and
  \<^verbatim>\<open>PromptMessageTool(name, description, parameters)\<close>, which validate.\<close>

record agent_runtime = session +
  json_dumps_ascii :: "json \<Rightarrow> string"
  llm_invoke :: "ReActParams \<Rightarrow> string list \<Rightarrow> PromptMessageTool list
                   \<Rightarrow> AgentScratchpadUnit list \<Rightarrow> exn + (chunk list \<times> LLMUsage option option)"
  increase_usage :: "LLMUsage option \<Rightarrow> LLMUsage \<Rightarrow> LLMUsage option"
  init_prompt_tools :: "ToolEntity list option \<Rightarrow> PromptMessageTool list"
  update_prompt_message_tool :: "ToolEntity \<Rightarrow> PromptMessageTool \<Rightarrow> PromptMessageTool"
  mcp_connect :: "json \<Rightarrow> bool \<Rightarrow> bool \<Rightarrow> exn + McpClients"
  new_prompt_tool :: "json option \<Rightarrow> json \<Rightarrow> json option \<Rightarrow> exn + PromptMessageTool"

text \<open>What the loop reads and never changes, and what it changes. \<open>model_calls\<close> is not a
  variable of the code: it records, for every model call, the round and the tool catalogue
  the prompt was assembled from.\<close>

record loop_context =
  lc_params :: ReActParams
  lc_stop :: "string list"
  lc_max_iteration_steps :: int
  lc_tool_instances :: "string \<rightharpoonup> ToolEntity"
  lc_mcp_clients :: "McpClients option"
  lc_mcp_tool_instances :: "string \<rightharpoonup> dict"

record loop_state =
  agent_scratchpad :: "AgentScratchpadUnit list"
  iteration_step :: int
  run_agent_state :: bool
  llm_usage :: "LLMUsage option"
  final_answer :: string
  prompt_messages_tools :: "PromptMessageTool list"
  yielded :: "message list"
  model_calls :: "(int \<times> PromptMessageTool list) list"

subsection \<open>String helpers\<close>

text \<open>\<^verbatim>\<open>str.lower\<close> and \<^verbatim>\<open>str.strip\<close> on the ASCII range; a byte outside it is left as it
  is. No character outside ASCII lowers to a letter of \<^verbatim>\<open>final answer\<close>.\<close>

definition lower_char :: "char \<Rightarrow> char" where
  "lower_char c =
     (if (65::nat) \<le> of_char c \<and> (of_char c :: nat) \<le> 90 then char_of (of_char c + (32::nat)) else c)"

definition lower :: "string \<Rightarrow> string" where
  "lower s = map lower_char s"

definition isspace :: "char \<Rightarrow> bool" where
  "isspace c = (let n = (of_char c :: nat) in (9 \<le> n \<and> n \<le> 13) \<or> (28 \<le> n \<and> n \<le> 32))"

definition strip :: "string \<Rightarrow> string" where
  "strip s = rev (dropWhile isspace (rev (dropWhile isspace s)))"

definition strip_chars :: "char \<Rightarrow> string \<Rightarrow> string" where
  "strip_chars q s = rev (dropWhile (\<lambda>c. c = q) (rev (dropWhile (\<lambda>c. c = q) s)))"

subsection \<open>One round\<close>

text \<open>Lines 169-182: the round starts; on the last allowed iteration the catalogue is
  emptied.\<close>

definition begin_round :: "loop_context \<Rightarrow> loop_state \<Rightarrow> loop_state" where
  "begin_round cx s =
     (let s1 = s\<lparr>run_agent_state := False, yielded := yielded s @ [RoundStart (iteration_step s)]\<rparr>
      in if iteration_step s = lc_max_iteration_steps cx
         then s1\<lparr>prompt_messages_tools := []\<rparr> else s1)"

text \<open>Lines 212-251: the chunks fill a fresh scratchpad unit; afterwards the thought is
  stripped, or replaced when it is empty.\<close>

definition model_dump :: "Action \<Rightarrow> json" where
  "model_dump a = JObj [(''action_name'', JStr (action_name a)),
                        (''action_input'', json_of_input (action_input a))]"

definition to_dict :: "Action \<Rightarrow> json" where
  "to_dict a = JObj [(''action'', JStr (action_name a)),
                     (''action_input'', json_of_input (action_input a))]"

fun absorb_chunk ::
  "'a agent_runtime_scheme \<Rightarrow> string \<times> string \<times> string \<times> Action option \<Rightarrow> chunk
     \<Rightarrow> string \<times> string \<times> string \<times> Action option" where
  "absorb_chunk rt (agent_response, thought, action_str, action) (ActionChunk a) =
     (agent_response @ json_dumps_ascii rt (model_dump a), thought,
      json_dumps_ascii rt (model_dump a), Some a)"
| "absorb_chunk rt (agent_response, thought, action_str, action) (TextChunk c) =
     (agent_response @ c, thought @ c, action_str, action)"

definition read_chunks :: "'a agent_runtime_scheme \<Rightarrow> chunk list \<Rightarrow> AgentScratchpadUnit" where
  "read_chunks rt chunks =
     (case foldl (absorb_chunk rt) ([], [], [], None) chunks of
        (agent_response, thought, action_str, action) \<Rightarrow>
          \<lparr>su_agent_response = JStr agent_response,
           su_thought = (if thought \<noteq> [] then strip thought
                         else ''I am thinking about how to help you''),
           su_action_str = action_str,
           su_observation = JStr [],
           su_action = action\<rparr>)"

text \<open>Lines 254-259: the usage of the round is added to the running total when there is
  one.\<close>

definition record_usage ::
  "'a agent_runtime_scheme \<Rightarrow> LLMUsage option option \<Rightarrow> loop_state \<Rightarrow> loop_state" where
  "record_usage rt usage_slot s =
     (case usage_slot of
        Some (Some usage) \<Rightarrow> s\<lparr>llm_usage := increase_usage rt (llm_usage s) usage\<rparr>
      | _ \<Rightarrow> s)"

text \<open>Lines 351-356, and lines 357-384: the catalogue entries of local tools are
  refreshed; the round is logged as finished and the counter advances.\<close>

definition refresh_prompt_tools ::
  "'a agent_runtime_scheme \<Rightarrow> loop_context \<Rightarrow> loop_state \<Rightarrow> loop_state" where
  "refresh_prompt_tools rt cx s =
     s\<lparr>prompt_messages_tools :=
         map (\<lambda>prompt_tool.
                case lc_tool_instances cx (pt_name prompt_tool) of
                  Some tool \<Rightarrow> update_prompt_message_tool rt tool prompt_tool
                | None \<Rightarrow> prompt_tool)
             (prompt_messages_tools s)\<rparr>"

definition end_round :: "AgentScratchpadUnit \<Rightarrow> loop_state \<Rightarrow> loop_state" where
  "end_round scratchpad s =
     s\<lparr>yielded := yielded s @
          [RoundFinish (iteration_step s)
             (case su_action scratchpad of Some a \<Rightarrow> action_name a | None \<Rightarrow> [])
             (case su_action scratchpad of Some a \<Rightarrow> json_of_input (action_input a) | None \<Rightarrow> JStr [])
             (su_thought scratchpad) (su_observation scratchpad)],
       iteration_step := iteration_step s + 1\<rparr>"

text \<open>Lines 286-349: no action, the terminal action, or a tool call. An exception that
  leaves the dispatcher leaves the generator: the state is the one reached, with the
  exception beside it.\<close>

abbreviation dispatch ::
  "'a agent_runtime_scheme \<Rightarrow> loop_context \<Rightarrow> Action \<Rightarrow> exn + (json \<times> json)" where
  "dispatch rt cx a \<equiv>
     handle_invoke_action rt a (map_option execute_tool (lc_mcp_clients cx))
       (lc_tool_instances cx) (lc_mcp_tool_instances cx)"

definition decide ::
  "'a agent_runtime_scheme \<Rightarrow> loop_context \<Rightarrow> AgentScratchpadUnit \<Rightarrow> loop_state
     \<Rightarrow> loop_state \<times> exn option" where
  "decide rt cx scratchpad s =
     (case su_action scratchpad of
        None \<Rightarrow> (end_round scratchpad (s\<lparr>final_answer := su_thought scratchpad\<rparr>), None)
      | Some a \<Rightarrow>
          if lower (action_name a) = ''final answer'' then
            (end_round scratchpad
               (refresh_prompt_tools rt cx
                  (s\<lparr>final_answer :=
                       (case action_input a of
                          DictInput d \<Rightarrow> json_dumps_ascii rt (JObj d)
                        | StrInput t \<Rightarrow> t)\<rparr>)),
             None)
          else
            (let tool_name = action_name a;
                 s1 = s\<lparr>run_agent_state := True,
                        yielded := yielded s @ [ToolCallStart (iteration_step s) tool_name]\<rparr>
             in case dispatch rt cx a of
                  Inl e \<Rightarrow> (s1, Some e)
                | Inr (tool_invoke_response, tool_invoke_parameters) \<Rightarrow>
                    (let scratchpad' = scratchpad\<lparr>su_observation := tool_invoke_response,
                                                   su_agent_response := tool_invoke_response\<rparr>;
                         s2 = s1\<lparr>agent_scratchpad := butlast (agent_scratchpad s1) @ [scratchpad'],
                                 yielded := yielded s1 @
                                   [ToolCallFinish (iteration_step s) tool_name
                                      tool_invoke_parameters tool_invoke_response]\<rparr>
                     in (end_round scratchpad' (refresh_prompt_tools rt cx s2), None))))"

text \<open>The body of the \<^verbatim>\<open>while\<close>, lines 168-384.\<close>

definition react_round ::
  "'a agent_runtime_scheme \<Rightarrow> loop_context \<Rightarrow> loop_state \<Rightarrow> loop_state \<times> exn option" where
  "react_round rt cx s =
     (let s1 = begin_round cx s;
          s2 = s1\<lparr>model_calls := model_calls s1 @ [(iteration_step s1, prompt_messages_tools s1)],
                 yielded := yielded s1 @ [ThoughtStart (iteration_step s1)]\<rparr>
      in case llm_invoke rt (lc_params cx) (lc_stop cx) (prompt_messages_tools s1)
                (agent_scratchpad s1) of
           Inl e \<Rightarrow> (s2, Some e)
         | Inr (chunks, usage_slot) \<Rightarrow>
             (let scratchpad = read_chunks rt chunks;
                  s3 = record_usage rt usage_slot
                         (s2\<lparr>agent_scratchpad := agent_scratchpad s2 @ [scratchpad]\<rparr>);
                  s4 = s3\<lparr>yielded := yielded s3 @
                            [ThoughtFinish (iteration_step s3) (su_thought scratchpad)
                               (case su_action scratchpad of
                                  Some a \<Rightarrow> to_dict a
                                | None \<Rightarrow> JObj [(''action'', su_agent_response scratchpad)])]\<rparr>
              in decide rt cx scratchpad s4))"

lemma decide_advances:
  "decide rt cx u s = (s', None) \<Longrightarrow> iteration_step s' = iteration_step s + 1"
  by (auto simp: decide_def end_round_def refresh_prompt_tools_def Let_def
      split: option.splits if_splits sum.splits prod.splits)

lemma begin_round_step [simp]: "iteration_step (begin_round cx s) = iteration_step s"
  by (simp add: begin_round_def Let_def)

lemma record_usage_step [simp]: "iteration_step (record_usage rt u s) = iteration_step s"
  by (simp add: record_usage_def split: option.splits)

lemma react_round_advances:
  "react_round rt cx s = (s', None) \<Longrightarrow> iteration_step s' = iteration_step s + 1"
  by (auto simp: react_round_def Let_def split: sum.splits prod.splits dest!: decide_advances)

subsection \<open>The loop and the invocation\<close>

text \<open>Line 167: \<^verbatim>\<open>while run_agent_state and iteration_step <= max_iteration_steps\<close>.\<close>

function react_loop ::
  "'a agent_runtime_scheme \<Rightarrow> loop_context \<Rightarrow> loop_state \<Rightarrow> loop_state \<times> exn option" where
  "react_loop rt cx s =
     (if run_agent_state s \<and> iteration_step s \<le> lc_max_iteration_steps cx then
        (case react_round rt cx s of
           (s', Some e) \<Rightarrow> (s', Some e)
         | (s', None) \<Rightarrow> react_loop rt cx s')
      else (s, None))"
  by pat_completeness auto
termination
  apply (relation "measure (\<lambda>(rt, cx, s). nat (lc_max_iteration_steps cx + 1 - iteration_step s))")
   apply simp
  apply (auto dest!: react_round_advances [OF sym])
  done

declare react_loop.simps [simp del]

lemma react_loop_stop:
  "\<not> (run_agent_state s \<and> iteration_step s \<le> lc_max_iteration_steps cx) \<Longrightarrow>
     react_loop rt cx s = (s, None)"
  by (subst react_loop.simps) auto

lemma react_loop_raise:
  "run_agent_state s \<Longrightarrow> iteration_step s \<le> lc_max_iteration_steps cx \<Longrightarrow>
     react_round rt cx s = (s', Some e) \<Longrightarrow> react_loop rt cx s = (s', Some e)"
  by (subst react_loop.simps) simp

lemma react_loop_next:
  "run_agent_state s \<Longrightarrow> iteration_step s \<le> lc_max_iteration_steps cx \<Longrightarrow>
     react_round rt cx s = (s', None) \<Longrightarrow> react_loop rt cx s = react_loop rt cx s'"
  by (subst react_loop.simps) simp

text \<open>A model that never ends the run by itself: whatever the catalogue and the
  scratchpad, its reply holds an action that is not the terminal one and that the
  dispatcher handles without raising.\<close>

definition never_terminal :: "'a agent_runtime_scheme \<Rightarrow> loop_context \<Rightarrow> bool" where
  "never_terminal rt cx \<longleftrightarrow>
     (\<forall>ts sp. \<exists>chunks u a r.
        llm_invoke rt (lc_params cx) (lc_stop cx) ts sp = Inr (chunks, u)
        \<and> su_action (read_chunks rt chunks) = Some a
        \<and> lower (action_name a) \<noteq> ''final answer''
        \<and> dispatch rt cx a = Inr r)"

text \<open>Lines 124-133: the stop sequences.\<close>

definition ignore_observation_providers :: "string list" where
  "ignore_observation_providers = [''wenxin'']"

definition init_stop :: "AgentModelConfig \<Rightarrow> string list" where
  "init_stop m =
     (let stop = (case stop_param m of Some xs \<Rightarrow> xs | None \<Rightarrow> [])
      in if ''Observation'' \<notin> set stop \<and> provider m \<notin> set ignore_observation_providers
         then stop @ [''Observation''] else stop)"

text \<open>Lines 140 and 157: the registries by name; a later tool of the same name replaces
  an earlier one. The client lists tools with string names; a remote descriptor whose name
  is not a string could never be looked up by an action's name, so it gets no entry.\<close>

definition local_tool_instances :: "ToolEntity list option \<Rightarrow> (string \<rightharpoonup> ToolEntity)" where
  "local_tool_instances ts =
     (case ts of
        None \<Rightarrow> Map.empty
      | Some xs \<Rightarrow> map_of (rev (map (\<lambda>tool. (identity_name tool, tool)) xs)))"

definition remote_tool_instances :: "dict list \<Rightarrow> (string \<rightharpoonup> dict)" where
  "remote_tool_instances mcp_tools =
     map_of (rev (List.map_filter
       (\<lambda>tool. case dict_get tool ''name'' of Some (JStr n) \<Rightarrow> Some (n, tool) | _ \<Rightarrow> None)
       mcp_tools))"

text \<open>Lines 598-612, \<^verbatim>\<open>_init_prompt_mcp_tools\<close>: one catalogue entry per remote tool; the
  first constructor that fails raises.\<close>

fun init_prompt_mcp_tools ::
  "'a agent_runtime_scheme \<Rightarrow> dict list \<Rightarrow> exn + PromptMessageTool list" where
  "init_prompt_mcp_tools rt [] = Inr []"
| "init_prompt_mcp_tools rt (tool # rest) =
     (case new_prompt_tool rt (dict_get tool ''name'')
             (case dict_get tool ''description'' of Some v \<Rightarrow> v | None \<Rightarrow> JStr [])
             (dict_get tool ''inputSchema'') of
        Inl e \<Rightarrow> Inl e
      | Inr prompt_message \<Rightarrow>
          (case init_prompt_mcp_tools rt rest of
             Inl e \<Rightarrow> Inl e
           | Inr others \<Rightarrow> Inr (prompt_message # others)))"

text \<open>Lines 143-157: the remote client, when a configuration is given.\<close>

definition fetch_mcp ::
  "'a agent_runtime_scheme \<Rightarrow> ReActParams \<Rightarrow> exn + (McpClients option \<times> dict list)" where
  "fetch_mcp rt params =
     (case mcp_servers_config params of
        None \<Rightarrow> Inr (None, [])
      | Some config \<Rightarrow>
          if config = [] then Inr (None, [])
          else
            (case json_loads rt (strip_chars (CHR 0x22) config) of
               Inl decode_error \<Rightarrow>
                 Inl (Exn ValueError
                        (''mcp_servers_config must be a valid JSON string: '' @ decode_error))
             | Inr servers_config \<Rightarrow>
                 (case mcp_connect rt servers_config (mcp_resources_as_tools params)
                         (mcp_prompts_as_tools params) of
                    Inl e \<Rightarrow> Inl e
                  | Inr mcp_clients \<Rightarrow>
                      (case fetch_tools mcp_clients of
                         Inl e \<Rightarrow> Inl e
                       | Inr mcp_tools \<Rightarrow> Inr (Some mcp_clients, mcp_tools)))))"

text \<open>Lines 111-165: everything before the loop. It gives the context of the loop and
  its first state, or raises.\<close>

definition prepare ::
  "'a agent_runtime_scheme \<Rightarrow> ReActParams \<Rightarrow> exn + (loop_context \<times> loop_state)" where
  "prepare rt params =
     (case fetch_mcp rt params of
        Inl e \<Rightarrow> Inl e
      | Inr (mcp_clients, mcp_tools) \<Rightarrow>
          (case init_prompt_mcp_tools rt mcp_tools of
             Inl e \<Rightarrow> Inl e
           | Inr mcp_prompt_tools \<Rightarrow>
               Inr (\<lparr>lc_params = params,
                     lc_stop = init_stop (model params),
                     lc_max_iteration_steps = maximum_iterations params,
                     lc_tool_instances = local_tool_instances (tools params),
                     lc_mcp_clients = mcp_clients,
                     lc_mcp_tool_instances = remote_tool_instances mcp_tools\<rparr>,
                    \<lparr>agent_scratchpad = [],
                     iteration_step = 1,
                     run_agent_state = True,
                     llm_usage = None,
                     final_answer = [],
                     prompt_messages_tools = init_prompt_tools rt (tools params) @ mcp_prompt_tools,
                     yielded = [],
                     model_calls = []\<rparr>)))"

text \<open>Lines 386-405: the client is closed, the final answer and the usage summary are
  emitted.\<close>

definition close_clients :: "McpClients option \<Rightarrow> exn option" where
  "close_clients mc = (case mc of Some mcp_clients \<Rightarrow> close mcp_clients | None \<Rightarrow> None)"

definition usage_summary :: "LLMUsage option \<Rightarrow> message" where
  "usage_summary u =
     (case u of
        Some usage \<Rightarrow> JsonMessage (total_price usage) (currency usage) (total_tokens usage)
      | None \<Rightarrow> JsonMessage 0 [] 0)"

definition finish :: "loop_context \<Rightarrow> loop_state \<Rightarrow> loop_state \<times> exn option" where
  "finish cx s =
     (case close_clients (lc_mcp_clients cx) of
        Some e \<Rightarrow> (s, Some e)
      | None \<Rightarrow>
          (s\<lparr>yielded := yielded s @ [TextMessage (final_answer s), usage_summary (llm_usage s)]\<rparr>,
           None))"

text \<open>The generator \<^verbatim>\<open>_invoke\<close>: the messages it yields, and the exception that ends it if
  one does.\<close>

definition invoke :: "'a agent_runtime_scheme \<Rightarrow> ReActParams \<Rightarrow> message list \<times> exn option" where
  "invoke rt params =
     (case prepare rt params of
        Inl e \<Rightarrow> ([], Some e)
      | Inr (cx, s0) \<Rightarrow>
          (case react_loop rt cx s0 of
             (s, Some e) \<Rightarrow> (yielded s, Some e)
           | (s, None) \<Rightarrow>
               (case finish cx s of (s', err) \<Rightarrow> (yielded s', err))))"

section \<open>A concrete runtime for the examples\<close>

text \<open>The theorems below hold for every runtime. The examples run on this one:
  \<^verbatim>\<open>json.dumps\<close> as Python renders integers, strings, lists and dicts (separators
  \<^verbatim>\<open>", "\<close> and \<^verbatim>\<open>": "\<close>, control characters escaped), a decoder that stands for
  \<^verbatim>\<open>json.loads\<close> on the texts of the examples (of those only \<^verbatim>\<open>{}\<close> is JSON), a local
  runtime that can run the calculator only and a remote client that answers for four tools.\<close>

fun digits_of_nat :: "nat \<Rightarrow> string" where
  "digits_of_nat n = (if n < 10 then [char_of (48 + n)] else digits_of_nat (n div 10) @ [char_of (48 + n mod 10)])"

definition str_of_int :: "int \<Rightarrow> string" where
  "str_of_int i = (if i < 0 then CHR ''-'' # digits_of_nat (nat (- i)) else digits_of_nat (nat i))"

definition hex_digit :: "nat \<Rightarrow> char" where
  "hex_digit n = (if n < 10 then char_of (48 + n) else char_of (87 + n))"

definition escape_char :: "char \<Rightarrow> string" where
  "escape_char c =
     (if c = CHR 0x22 then [CHR 0x5C, CHR 0x22]
      else if c = CHR 0x5C then [CHR 0x5C, CHR 0x5C]
      else if c = CHR 0x08 then [CHR 0x5C, CHR ''b'']
      else if c = CHR 0x0C then [CHR 0x5C, CHR ''f'']
      else if c = CHR 0x0A then [CHR 0x5C, CHR ''n'']
      else if c = CHR 0x0D then [CHR 0x5C, CHR ''r'']
      else if c = CHR 0x09 then [CHR 0x5C, CHR ''t'']
      else if (of_char c :: nat) < 32
        then [CHR 0x5C, CHR ''u'', CHR ''0'', CHR ''0'',
              hex_digit (of_char c div 16), hex_digit (of_char c mod 16)]
      else [c])"

definition encode_str :: "string \<Rightarrow> string" where
  "encode_str s = CHR 0x22 # concat (map escape_char s) @ [CHR 0x22]"

fun join :: "string \<Rightarrow> string list \<Rightarrow> string" where
  "join sep [] = []"
| "join sep [x] = x"
| "join sep (x # y # ys) = x @ sep @ join sep (y # ys)"

fun py_json_dumps :: "json \<Rightarrow> string" where
  "py_json_dumps JNull = ''null''"
| "py_json_dumps (JBool b) = (if b then ''true'' else ''false'')"
| "py_json_dumps (JInt i) = str_of_int i"
| "py_json_dumps (JStr s) = encode_str s"
| "py_json_dumps (JArr xs) = ''['' @ join '', '' (map py_json_dumps xs) @ '']''"
| "py_json_dumps (JObj kvs) =
     ''{'' @ join '', '' (map (\<lambda>(k, v). encode_str k @ '': '' @ py_json_dumps v) kvs) @ ''}''"

definition demo_loads :: "string \<Rightarrow> string + json" where
  "demo_loads s =
     (if s = ''{}'' then Inr (JObj [])
      else Inl ''Expecting value: line 1 column 1 (char 0)'')"

definition demo_tool_invoke :: "string \<Rightarrow> string \<Rightarrow> string \<Rightarrow> dict \<Rightarrow> exn + ToolInvokeMessage list" where
  "demo_tool_invoke ptype prov tool_name args =
     (if tool_name = ''calculator'' then Inr [TEXT ''4'']
      else Inl (Exn OtherError ''tool backend unavailable''))"

definition demo_execute_tool :: mcp_execute where
  "demo_execute_tool tool_name tool_args =
     (if tool_name = ''calculator'' then Inr [[(''type'', JStr ''text''), (''text'', JStr ''42'')]]
      else if tool_name = ''fetch'' then
        Inr [[(''type'', JStr ''resource''), (''resource'', JObj [(''uri'', JStr ''file:///a'')])]]
      else if tool_name = ''snapshot'' then
        Inr [[(''type'', JStr ''image''), (''data'', JStr ''AAAA'')]]
      else if tool_name = ''pair'' then
        Inr [[(''type'', JStr ''text''), (''text'', JStr ''a'')],
             [(''type'', JStr ''text''), (''text'', JStr ''b'')]]
      else Inl (Exn OtherError ''connection closed''))"

definition calculator :: ToolEntity where
  "calculator = \<lparr>identity_name = ''calculator'', identity_provider = ''math'',
     parameters = [\<lparr>tp_name = ''expr'', tp_form = LLM\<rparr>, \<lparr>tp_name = ''precision'', tp_form = FORM\<rparr>],
     runtime_parameters = [(''precision'', JInt 2)], provider_type = ''builtin''\<rparr>"

definition clock :: ToolEntity where
  "clock = \<lparr>identity_name = ''clock'', identity_provider = ''time'',
     parameters = [\<lparr>tp_name = ''zone'', tp_form = FORM\<rparr>],
     runtime_parameters = [], provider_type = ''builtin''\<rparr>"

definition converter :: ToolEntity where
  "converter = \<lparr>identity_name = ''converter'', identity_provider = ''math'',
     parameters = [\<lparr>tp_name = ''amount'', tp_form = LLM\<rparr>, \<lparr>tp_name = ''unit'', tp_form = LLM\<rparr>],
     runtime_parameters = [], provider_type = ''builtin''\<rparr>"

text \<open>The registries of the examples: three local tools and five remote ones; both know a
  \<^verbatim>\<open>calculator\<close>.\<close>

definition demo_tool_instances :: "string \<rightharpoonup> ToolEntity" where
  "demo_tool_instances = local_tool_instances (Some [calculator, clock, converter])"

definition demo_mcp_tool_instances :: "string \<rightharpoonup> dict" where
  "demo_mcp_tool_instances =
     remote_tool_instances
       [[(''name'', JStr ''calculator'')], [(''name'', JStr ''fetch'')], [(''name'', JStr ''snapshot'')],
        [(''name'', JStr ''pair'')], [(''name'', JStr ''search'')]]"

definition act :: "string \<Rightarrow> action_input \<Rightarrow> Action" where
  "act n i = \<lparr>action_name = n, action_input = i\<rparr>"

text \<open>The model of the examples asks for the calculator; when the query is
  \<^verbatim>\<open>What is 2+2?\<close> and the scratchpad already holds a round, it gives the final answer.\<close>

definition demo_usage :: LLMUsage where
  "demo_usage = \<lparr>total_price = 3 / 1000, currency = ''USD'', total_tokens = 21\<rparr>"

definition demo_increase_usage :: "LLMUsage option \<Rightarrow> LLMUsage \<Rightarrow> LLMUsage option" where
  "demo_increase_usage acc u =
     (case acc of
        None \<Rightarrow> Some u
      | Some t \<Rightarrow>
          Some \<lparr>total_price = total_price t + total_price u, currency = currency u,
                total_tokens = total_tokens t + total_tokens u\<rparr>)"

definition demo_llm_invoke ::
  "ReActParams \<Rightarrow> string list \<Rightarrow> PromptMessageTool list \<Rightarrow> AgentScratchpadUnit list
     \<Rightarrow> exn + (chunk list \<times> LLMUsage option option)" where
  "demo_llm_invoke ps stops catalogue history =
     (if query ps = ''What is 2+2?'' \<and> history \<noteq> [] then
        Inr ([TextChunk ''The calculator says 4. '',
              ActionChunk (act ''Final Answer'' (StrInput ''4''))], Some (Some demo_usage))
      else
        Inr ([TextChunk ''I need the calculator. '',
              ActionChunk (act ''calculator'' (DictInput [(''expr'', JStr ''2+2'')]))],
             Some (Some demo_usage)))"

definition demo_init_prompt_tools :: "ToolEntity list option \<Rightarrow> PromptMessageTool list" where
  "demo_init_prompt_tools ts =
     map (\<lambda>tool. \<lparr>pt_name = identity_name tool, pt_description = [], pt_parameters = JObj []\<rparr>)
       (case ts of Some xs \<Rightarrow> xs | None \<Rightarrow> [])"

definition demo_new_prompt_tool ::
  "json option \<Rightarrow> json \<Rightarrow> json option \<Rightarrow> exn + PromptMessageTool" where
  "demo_new_prompt_tool n d schema =
     (case (n, d, schema) of
        (Some (JStr name), JStr description, Some (JObj ps)) \<Rightarrow>
          Inr \<lparr>pt_name = name, pt_description = description, pt_parameters = JObj ps\<rparr>
      | _ \<Rightarrow> Inl (Exn ValidationError ''validation error for PromptMessageTool''))"

definition demo_clients :: McpClients where
  "demo_clients =
     \<lparr>fetch_tools = Inr [[(''name'', JStr ''fetch''), (''description'', JStr ''read a file''),
                          (''inputSchema'', JObj [])]],
      execute_tool = demo_execute_tool,
      close = None\<rparr>"

definition demo_runtime :: agent_runtime where
  "demo_runtime =
     \<lparr>json_loads = demo_loads, json_dumps = py_json_dumps, tool_invoke = demo_tool_invoke,
      json_dumps_ascii = py_json_dumps, llm_invoke = demo_llm_invoke,
      increase_usage = demo_increase_usage, init_prompt_tools = demo_init_prompt_tools,
      update_prompt_message_tool = (\<lambda>tool prompt_tool. prompt_tool),
      mcp_connect = (\<lambda>servers_config resources prompts. Inr demo_clients),
      new_prompt_tool = demo_new_prompt_tool\<rparr>"

definition demo_params :: "string \<Rightarrow> int \<Rightarrow> ReActParams" where
  "demo_params q n =
     \<lparr>query = q, instruction = ''Answer briefly.'',
      model = \<lparr>provider = ''openai'', model_name = ''gpt-4o'', stop_param = None\<rparr>,
      tools = Some [calculator], mcp_servers_config = None,
      mcp_resources_as_tools = False, mcp_prompts_as_tools = False,
      maximum_iterations = n\<rparr>"

text \<open>What \<^verbatim>\<open>_invoke\<close> prepares for these parameters.\<close>

definition demo_context :: "string \<Rightarrow> int \<Rightarrow> loop_context" where
  "demo_context q n =
     \<lparr>lc_params = demo_params q n,
      lc_stop = [''Observation''],
      lc_max_iteration_steps = n,
      lc_tool_instances = local_tool_instances (Some [calculator]),
      lc_mcp_clients = None,
      lc_mcp_tool_instances = remote_tool_instances []\<rparr>"

definition demo_start :: loop_state where
  "demo_start =
     \<lparr>agent_scratchpad = [], iteration_step = 1, run_agent_state = True, llm_usage = None,
      final_answer = [],
      prompt_messages_tools =
        [\<lparr>pt_name = ''calculator'', pt_description = [], pt_parameters = JObj []\<rparr>],
      yielded = [], model_calls = []\<rparr>"

text \<open>A context whose registries are those of the dispatcher examples, with the remote
  client connected.\<close>

definition demo_wide_context :: loop_context where
  "demo_wide_context =
     \<lparr>lc_params = demo_params ''Compute forever'' 3,
      lc_stop = [''Observation''],
      lc_max_iteration_steps = 3,
      lc_tool_instances = demo_tool_instances,
      lc_mcp_clients = Some demo_clients,
      lc_mcp_tool_instances = demo_mcp_tool_instances\<rparr>"

section \<open>Auxiliary facts\<close>

subsection \<open>The runtime of the examples\<close>

lemma demo_tool_instances_simps [simp]:
  "demo_tool_instances ''calculator'' = Some calculator"
  "demo_tool_instances ''clock'' = Some clock"
  "demo_tool_instances ''converter'' = Some converter"
  "demo_tool_instances ''fetch'' = None"
  "demo_tool_instances ''snapshot'' = None"
  "demo_tool_instances ''pair'' = None"
  "demo_tool_instances ''search'' = None"
  "demo_tool_instances ''unknown_tool'' = None"
  by (simp_all add: demo_tool_instances_def local_tool_instances_def calculator_def clock_def
      converter_def)

lemma demo_mcp_tool_instances_simps [simp]:
  "demo_mcp_tool_instances ''calculator'' = Some [(''name'', JStr ''calculator'')]"
  "demo_mcp_tool_instances ''fetch'' = Some [(''name'', JStr ''fetch'')]"
  "demo_mcp_tool_instances ''snapshot'' = Some [(''name'', JStr ''snapshot'')]"
  "demo_mcp_tool_instances ''pair'' = Some [(''name'', JStr ''pair'')]"
  "demo_mcp_tool_instances ''search'' = Some [(''name'', JStr ''search'')]"
  "demo_mcp_tool_instances ''clock'' = None"
  "demo_mcp_tool_instances ''converter'' = None"
  "demo_mcp_tool_instances ''unknown_tool'' = None"
  by (simp_all add: demo_mcp_tool_instances_def remote_tool_instances_def dict_get_def
      List.map_filter_simps)

lemma demo_runtime_simps [simp]:
  "json_loads demo_runtime = demo_loads"
  "json_dumps demo_runtime = py_json_dumps"
  "tool_invoke demo_runtime = demo_tool_invoke"
  "json_dumps_ascii demo_runtime = py_json_dumps"
  "llm_invoke demo_runtime = demo_llm_invoke"
  by (simp_all add: demo_runtime_def)

lemma act_simps [simp]: "action_name (act n i) = n" "action_input (act n i) = i"
  by (simp_all add: act_def)

lemma llm_params_demo [simp]:
  "llm_params calculator = [''expr'']" "llm_params clock = []"
  "llm_params converter = [''amount'', ''unit'']"
  by (simp_all add: llm_params_def calculator_def clock_def converter_def)


lemma demo_wide_context_simps [simp]:
  "lc_tool_instances demo_wide_context = demo_tool_instances"
  "lc_mcp_tool_instances demo_wide_context = demo_mcp_tool_instances"
  "lc_mcp_clients demo_wide_context = Some demo_clients"
  "execute_tool demo_clients = demo_execute_tool"
  by (simp_all add: demo_wide_context_def demo_clients_def)

lemma prepare_demo:
  "prepare demo_runtime (demo_params q n) = Inr (demo_context q n, demo_start)"
  by (simp add: prepare_def fetch_mcp_def demo_params_def demo_context_def demo_start_def
      init_stop_def ignore_observation_providers_def demo_runtime_def demo_init_prompt_tools_def
      calculator_def)

subsection \<open>The dispatcher\<close>

lemma handle_invoke_action_coerced:
  assumes "tis (action_name a) \<noteq> None \<or> truthy_dict (mis (action_name a))"
    and "coerce_tool_call_args rt (tis (action_name a)) (action_input a) = Inr args"
  shows "handle_invoke_action rt a mc tis mis =
           (case invoke_resolved rt mc (tis (action_name a)) (mis (action_name a))
                   (action_name a) args of
              (Inl e, ps) \<Rightarrow> Inr (JStr (''tool invoke error: '' @ exc_str e), ps)
            | (Inr result, ps) \<Rightarrow> Inr (result, ps))"
  using assms by (auto simp: handle_invoke_action_def Let_def)

lemma coerce_ignores_tool_invoke [simp]:
  "coerce_tool_call_args (rt\<lparr>tool_invoke := f\<rparr>) ti inp = coerce_tool_call_args rt ti inp"
  by (simp add: coerce_tool_call_args_def split: action_input.splits sum.splits option.splits)

lemma render_mcp_content_ignores_tool_invoke [simp]:
  "render_mcp_content (rt\<lparr>tool_invoke := f\<rparr>) content = render_mcp_content rt content"
  by (simp add: render_mcp_content_def Let_def split: sum.splits)

lemma invoke_resolved_remote:
  assumes "truthy_dict mi"
  shows "invoke_resolved rt (Some exec) ti mi n args =
           (case exec n args of
              Inl e \<Rightarrow> (Inl e, args)
            | Inr content \<Rightarrow> (render_mcp_content rt content, args))"
  using assms by (simp add: invoke_resolved_def)

lemma invoke_resolved_local:
  assumes "\<not> truthy_dict mi"
  shows "invoke_resolved rt mc (Some tool) mi n (JObj d) =
           (case tool_invoke rt (provider_type tool) (identity_provider tool) (identity_name tool)
                   (dict_merge (runtime_parameters tool) d) of
              Inl e \<Rightarrow> (Inl e, JObj (dict_merge (runtime_parameters tool) d))
            | Inr responses \<Rightarrow>
                (Inr (JStr (render_tool_responses rt responses)),
                 JObj (dict_merge (runtime_parameters tool) d)))"
  using assms by (simp add: invoke_resolved_def Let_def)


subsection \<open>One round\<close>

lemma rounds_started_append [simp]:
  "rounds_started (xs @ ys) = rounds_started xs @ rounds_started ys"
  by (induction xs rule: rounds_started.induct) simp_all

text \<open>What one call of decide changes.\<close>

lemma decide_cases:
  "decide rt cx u s =
     (case su_action u of
        None \<Rightarrow> (end_round u (s\<lparr>final_answer := su_thought u\<rparr>), None)
      | Some a \<Rightarrow>
          if lower (action_name a) = ''final answer'' then
            (end_round u (refresh_prompt_tools rt cx
               (s\<lparr>final_answer := (case action_input a of
                     DictInput d \<Rightarrow> json_dumps_ascii rt (JObj d) | StrInput t \<Rightarrow> t)\<rparr>)), None)
          else
            (case dispatch rt cx a of
               Inl e \<Rightarrow>
                 (s\<lparr>run_agent_state := True,
                    yielded := yielded s @ [ToolCallStart (iteration_step s) (action_name a)]\<rparr>,
                  Some e)
             | Inr (obs, ps) \<Rightarrow>
                 (end_round (u\<lparr>su_observation := obs, su_agent_response := obs\<rparr>)
                    (refresh_prompt_tools rt cx
                       (s\<lparr>run_agent_state := True,
                          agent_scratchpad := butlast (agent_scratchpad s) @
                            [u\<lparr>su_observation := obs, su_agent_response := obs\<rparr>],
                          yielded := yielded s @
                            [ToolCallStart (iteration_step s) (action_name a),
                             ToolCallFinish (iteration_step s) (action_name a) ps obs]\<rparr>)),
                  None)))"
  by (simp add: decide_def Let_def split: option.splits sum.splits prod.splits)

lemma decide_model_calls [simp]: "model_calls (fst (decide rt cx u s)) = model_calls s"
  by (simp add: decide_cases end_round_def refresh_prompt_tools_def
      split: option.splits sum.splits prod.splits)

lemma decide_rounds_started [simp]:
  "rounds_started (yielded (fst (decide rt cx u s))) = rounds_started (yielded s)"
  by (simp add: decide_cases end_round_def refresh_prompt_tools_def
      split: option.splits sum.splits prod.splits)

lemma record_usage_frame [simp]:
  "model_calls (record_usage rt u s) = model_calls s"
  "yielded (record_usage rt u s) = yielded s"
  "final_answer (record_usage rt u s) = final_answer s"
  "run_agent_state (record_usage rt u s) = run_agent_state s"
  "agent_scratchpad (record_usage rt u s) = agent_scratchpad s"
  "prompt_messages_tools (record_usage rt u s) = prompt_messages_tools s"
  by (simp_all add: record_usage_def split: option.splits)

lemma begin_round_frame [simp]:
  "model_calls (begin_round cx s) = model_calls s"
  "yielded (begin_round cx s) = yielded s @ [RoundStart (iteration_step s)]"
  "final_answer (begin_round cx s) = final_answer s"
  "run_agent_state (begin_round cx s) = False"
  "agent_scratchpad (begin_round cx s) = agent_scratchpad s"
  "prompt_messages_tools (begin_round cx s) =
     (if iteration_step s = lc_max_iteration_steps cx then [] else prompt_messages_tools s)"
  by (simp_all add: begin_round_def Let_def)

lemma react_round_model_calls:
  "model_calls (fst (react_round rt cx s)) =
     model_calls s @ [(iteration_step s,
        if iteration_step s = lc_max_iteration_steps cx then [] else prompt_messages_tools s)]"
  by (simp add: react_round_def Let_def split: sum.splits prod.splits)

lemma react_round_rounds_started:
  "rounds_started (yielded (fst (react_round rt cx s))) =
     rounds_started (yielded s) @ [iteration_step s]"
  by (simp add: react_round_def Let_def split: sum.splits prod.splits)

lemma react_round_cases:
  assumes "llm_invoke rt (lc_params cx) (lc_stop cx) (prompt_messages_tools (begin_round cx s))
             (agent_scratchpad s) = Inr (chunks, usage_slot)"
  shows "react_round rt cx s =
           decide rt cx (read_chunks rt chunks)
             ((record_usage rt usage_slot
                ((begin_round cx s)
                   \<lparr>model_calls := model_calls s @
                       [(iteration_step s, prompt_messages_tools (begin_round cx s))],
                    yielded := yielded s @ [RoundStart (iteration_step s), ThoughtStart (iteration_step s)],
                    agent_scratchpad := agent_scratchpad s @ [read_chunks rt chunks]\<rparr>))
               \<lparr>yielded := yielded s @
                   [RoundStart (iteration_step s), ThoughtStart (iteration_step s),
                    ThoughtFinish (iteration_step s) (su_thought (read_chunks rt chunks))
                      (case su_action (read_chunks rt chunks) of
                         Some a \<Rightarrow> to_dict a
                       | None \<Rightarrow> JObj [(''action'', su_agent_response (read_chunks rt chunks))])]\<rparr>)"
  using assms by (simp add: react_round_def Let_def)

lemma decide_run_agent_state:
  "run_agent_state (fst (decide rt cx u s)) =
     (if su_action u = None \<or> (\<exists>a. su_action u = Some a \<and> lower (action_name a) = ''final answer'')
      then run_agent_state s else True)"
  by (auto simp: decide_cases end_round_def refresh_prompt_tools_def
      split: option.splits sum.splits prod.splits)

lemma decide_final_answer:
  "final_answer (fst (decide rt cx u s)) =
     (case su_action u of
        None \<Rightarrow> su_thought u
      | Some a \<Rightarrow>
          if lower (action_name a) = ''final answer''
          then (case action_input a of DictInput d \<Rightarrow> json_dumps_ascii rt (JObj d) | StrInput t \<Rightarrow> t)
          else final_answer s)"
  by (auto simp: decide_cases end_round_def refresh_prompt_tools_def
      split: option.splits sum.splits prod.splits)

lemma decide_terminal_returns:
  "su_action u = None \<or> (\<exists>a. su_action u = Some a \<and> lower (action_name a) = ''final answer'')
     \<Longrightarrow> snd (decide rt cx u s) = None"
  by (auto simp: decide_cases split: option.splits)


subsection \<open>Rounds and budget\<close>

definition rounds_inv :: "loop_context \<Rightarrow> loop_state \<Rightarrow> bool" where
  "rounds_inv cx s \<longleftrightarrow>
     1 \<le> iteration_step s \<and> iteration_step s \<le> lc_max_iteration_steps cx + 1
     \<and> map fst (model_calls s) = [1 .. iteration_step s - 1]
     \<and> rounds_started (yielded s) = [1 .. iteration_step s - 1]
     \<and> (\<forall>ts. (lc_max_iteration_steps cx, ts) \<in> set (model_calls s) \<longrightarrow> ts = [])"

definition rounds_bounded :: "loop_context \<Rightarrow> loop_state \<Rightarrow> bool" where
  "rounds_bounded cx s \<longleftrightarrow>
     (\<exists>k. k \<le> lc_max_iteration_steps cx
        \<and> map fst (model_calls s) = [1 .. k]
        \<and> rounds_started (yielded s) = [1 .. k])
     \<and> (\<forall>ts. (lc_max_iteration_steps cx, ts) \<in> set (model_calls s) \<longrightarrow> ts = [])"

lemma rounds_inv_bounded: "rounds_inv cx s \<Longrightarrow> rounds_bounded cx s"
  unfolding rounds_inv_def rounds_bounded_def
  by (intro conjI exI [of _ "iteration_step s - 1"]) auto

lemma upto_snoc: "1 \<le> i \<Longrightarrow> [1 .. i - 1] @ [i] = [1 .. (i::int)]"
  using upto_rec2 [of 1 i] by simp

lemma react_round_keeps_bound:
  assumes "rounds_inv cx s" and "iteration_step s \<le> lc_max_iteration_steps cx"
  shows "rounds_bounded cx (fst (react_round rt cx s))"
proof -
  let ?i = "iteration_step s" and ?n = "lc_max_iteration_steps cx"
  have a: "1 \<le> ?i" and b: "map fst (model_calls s) = [1 .. ?i - 1]"
    and c: "rounds_started (yielded s) = [1 .. ?i - 1]"
    and d: "\<forall>ts. (?n, ts) \<in> set (model_calls s) \<longrightarrow> ts = []"
    using assms(1) by (simp_all add: rounds_inv_def)
  have "map fst (model_calls (fst (react_round rt cx s))) = [1 .. ?i]"
    using a b by (simp add: react_round_model_calls upto_snoc)
  moreover have "rounds_started (yielded (fst (react_round rt cx s))) = [1 .. ?i]"
    using a c by (simp add: react_round_rounds_started upto_snoc)
  moreover have "\<forall>ts. (?n, ts) \<in> set (model_calls (fst (react_round rt cx s))) \<longrightarrow> ts = []"
    using d by (auto simp: react_round_model_calls)
  ultimately show ?thesis
    using assms(2) unfolding rounds_bounded_def by blast
qed

lemma react_round_keeps_inv:
  assumes "rounds_inv cx s" and "iteration_step s \<le> lc_max_iteration_steps cx"
    and "react_round rt cx s = (s', None)"
  shows "rounds_inv cx s'"
proof -
  let ?i = "iteration_step s" and ?n = "lc_max_iteration_steps cx"
  have s': "s' = fst (react_round rt cx s)" using assms(3) by simp
  have step: "iteration_step s' = ?i + 1" using assms(3) by (rule react_round_advances)
  have a: "1 \<le> ?i" and b: "map fst (model_calls s) = [1 .. ?i - 1]"
    and c: "rounds_started (yielded s) = [1 .. ?i - 1]"
    and d: "\<forall>ts. (?n, ts) \<in> set (model_calls s) \<longrightarrow> ts = []"
    using assms(1) by (simp_all add: rounds_inv_def)
  have "map fst (model_calls s') = [1 .. ?i]"
    unfolding s' using a b by (simp add: react_round_model_calls upto_snoc)
  moreover have "rounds_started (yielded s') = [1 .. ?i]"
    unfolding s' using a c by (simp add: react_round_rounds_started upto_snoc)
  moreover have "\<forall>ts. (?n, ts) \<in> set (model_calls s') \<longrightarrow> ts = []"
    unfolding s' using d by (auto simp: react_round_model_calls)
  ultimately show ?thesis
    using a assms(2) step by (simp add: rounds_inv_def)
qed

lemma react_loop_rounds_bounded:
  "rounds_inv cx s \<Longrightarrow> rounds_bounded cx (fst (react_loop rt cx s))"
proof (induction rt cx s rule: react_loop.induct)
  case (1 rt cx s)
  show ?case
  proof (cases "run_agent_state s \<and> iteration_step s \<le> lc_max_iteration_steps cx")
    case False
    then have "react_loop rt cx s = (s, None)" by (rule react_loop_stop)
    then show ?thesis using "1.prems" by (simp add: rounds_inv_bounded)
  next
    case True
    obtain s' err where r: "react_round rt cx s = (s', err)" by (cases "react_round rt cx s")
    show ?thesis
    proof (cases err)
      case None
      have inv: "rounds_inv cx s'"
        using react_round_keeps_inv [OF "1.prems" _ r [unfolded None]] True by simp
      have "react_loop rt cx s = react_loop rt cx s'"
        using True r None by (simp add: react_loop_next)
      moreover have "rounds_bounded cx (fst (react_loop rt cx s'))"
        using "1.IH" [OF True r [symmetric] None inv] by simp
      ultimately show ?thesis by simp
    next
      case (Some e)
      have "react_loop rt cx s = (s', Some e)"
        using True r Some by (simp add: react_loop_raise)
      moreover have "rounds_bounded cx s'"
        using react_round_keeps_bound [OF "1.prems", of rt] True r by simp
      ultimately show ?thesis by simp
    qed
  qed
qed

subsection \<open>Preparation and runs that never end by themselves\<close>

lemma prepare_fields:
  assumes "prepare rt ps = Inr (cx, s0)"
  shows "lc_params cx = ps" "lc_max_iteration_steps cx = maximum_iterations ps"
    "agent_scratchpad s0 = []" "iteration_step s0 = 1" "run_agent_state s0"
    "llm_usage s0 = None" "final_answer s0 = []" "yielded s0 = []" "model_calls s0 = []"
  using assms by (auto simp: prepare_def split: sum.splits prod.splits)

lemma fetch_mcp_ignores_budget [simp]:
  "fetch_mcp rt (ps\<lparr>maximum_iterations := n\<rparr>) = fetch_mcp rt ps"
  by (simp add: fetch_mcp_def split: option.splits sum.splits)

lemma prepare_ignores_budget:
  "prepare rt (ps\<lparr>maximum_iterations := n\<rparr>) =
     (case prepare rt ps of
        Inl e \<Rightarrow> Inl e
      | Inr (cx, s0) \<Rightarrow>
          Inr (cx\<lparr>lc_params := ps\<lparr>maximum_iterations := n\<rparr>, lc_max_iteration_steps := n\<rparr>, s0))"
  by (simp add: prepare_def split: sum.splits prod.splits)

lemma react_loop_keeps_inv:
  "rounds_inv cx s \<Longrightarrow> react_loop rt cx s = (s', None) \<Longrightarrow> rounds_inv cx s'"
proof (induction rt cx s rule: react_loop.induct)
  case (1 rt cx s)
  show ?case
  proof (cases "run_agent_state s \<and> iteration_step s \<le> lc_max_iteration_steps cx")
    case False
    then have "react_loop rt cx s = (s, None)" by (rule react_loop_stop)
    then show ?thesis using "1.prems" by simp
  next
    case True
    obtain s1 err where r: "react_round rt cx s = (s1, err)" by (cases "react_round rt cx s")
    show ?thesis
    proof (cases err)
      case None
      have inv: "rounds_inv cx s1"
        using react_round_keeps_inv [OF "1.prems"(1) _ r [unfolded None]] True by simp
      have "react_loop rt cx s = react_loop rt cx s1"
        using True r None by (simp add: react_loop_next)
      then show ?thesis
        using "1.IH" [OF True r [symmetric] None inv] "1.prems"(2) by simp
    next
      case (Some e)
      have "react_loop rt cx s = (s1, Some e)"
        using True r Some by (simp add: react_loop_raise)
      then show ?thesis using "1.prems"(2) by simp
    qed
  qed
qed

lemma decide_dispatched:
  assumes "su_action u = Some a" and "lower (action_name a) \<noteq> ''final answer''"
    and "dispatch rt cx a = Inr r"
  shows "snd (decide rt cx u s) = None" and "run_agent_state (fst (decide rt cx u s))"
    and "final_answer (fst (decide rt cx u s)) = final_answer s"
    and "ToolCallStart (iteration_step s) (action_name a) \<in> set (yielded (fst (decide rt cx u s)))"
  using assms
  by (cases r; simp add: decide_cases end_round_def refresh_prompt_tools_def)+

lemma decide_calls_tool:
  assumes "su_action u = Some a" and "lower (action_name a) \<noteq> ''final answer''"
  shows "ToolCallStart (iteration_step s) (action_name a) \<in> set (yielded (fst (decide rt cx u s)))"
  using assms
  by (simp add: decide_cases end_round_def refresh_prompt_tools_def split: sum.splits prod.splits)

lemma react_round_calls_tool:
  assumes "llm_invoke rt (lc_params cx) (lc_stop cx) (prompt_messages_tools (begin_round cx s))
             (agent_scratchpad s) = Inr (chunks, u)"
    and "su_action (read_chunks rt chunks) = Some a"
    and "lower (action_name a) \<noteq> ''final answer''"
  shows "ToolCallStart (iteration_step s) (action_name a)
           \<in> set (yielded (fst (react_round rt cx s)))"
proof -
  obtain st where r: "react_round rt cx s = decide rt cx (read_chunks rt chunks) st"
    and i: "iteration_step st = iteration_step s"
    by (rule that [OF react_round_cases [OF assms(1)]]) simp
  show ?thesis
    using decide_calls_tool [OF assms(2,3), of st rt cx] by (simp add: r i)
qed

lemma never_terminal_round:
  assumes "never_terminal rt cx"
  shows "\<exists>s1. react_round rt cx s = (s1, None) \<and> run_agent_state s1
              \<and> final_answer s1 = final_answer s"
proof -
  obtain chunks u a r where
    l: "llm_invoke rt (lc_params cx) (lc_stop cx) (prompt_messages_tools (begin_round cx s))
          (agent_scratchpad s) = Inr (chunks, u)"
    and a: "su_action (read_chunks rt chunks) = Some a"
    and n: "lower (action_name a) \<noteq> ''final answer''"
    and d: "dispatch rt cx a = Inr r"
    using assms unfolding never_terminal_def by blast
  note dd = decide_dispatched [OF a n d]
  show ?thesis
    by (rule exI [of _ "fst (react_round rt cx s)"])
       (simp add: react_round_cases [OF l] dd prod_eq_iff)
qed

lemma never_terminal_loop:
  assumes "never_terminal rt cx"
  shows "run_agent_state s \<Longrightarrow> final_answer s = [] \<Longrightarrow>
         iteration_step s \<le> lc_max_iteration_steps cx + 1 \<Longrightarrow>
         \<exists>s'. react_loop rt cx s = (s', None) \<and> final_answer s' = []
               \<and> iteration_step s' = lc_max_iteration_steps cx + 1"
  using assms
proof (induction rt cx s rule: react_loop.induct)
  case (1 rt cx s)
  show ?case
  proof (cases "iteration_step s \<le> lc_max_iteration_steps cx")
    case False
    then have "react_loop rt cx s = (s, None)" by (simp add: react_loop_stop)
    then show ?thesis using "1.prems" False by simp
  next
    case True
    obtain s1 where r: "react_round rt cx s = (s1, None)" and g: "run_agent_state s1"
      and f: "final_answer s1 = final_answer s"
      using never_terminal_round [OF "1.prems"(4)] by blast
    have st: "iteration_step s1 = iteration_step s + 1"
      using r by (rule react_round_advances)
    have "react_loop rt cx s = react_loop rt cx s1"
      using True r "1.prems"(1) by (simp add: react_loop_next)
    moreover have "\<exists>s'. react_loop rt cx s1 = (s', None) \<and> final_answer s' = []
               \<and> iteration_step s' = lc_max_iteration_steps cx + 1"
      using "1.IH" [OF _ r [symmetric] refl g _ _ "1.prems"(4)] True "1.prems"(1,2) f st
      by simp
    ultimately show ?thesis by simp
  qed
qed

lemma demo_never_terminal: "never_terminal demo_runtime (demo_context ''Compute forever'' n)"
proof -
  have d: "dispatch demo_runtime (demo_context ''Compute forever'' n)
             (act ''calculator'' (DictInput [(''expr'', JStr ''2+2'')]))
           = Inr (JStr ''4'', JObj [(''precision'', JInt 2), (''expr'', JStr ''2+2'')])"
    by (simp add: demo_context_def handle_invoke_action_def coerce_tool_call_args_def
        invoke_resolved_def local_tool_instances_def remote_tool_instances_def
        List.map_filter_simps calculator_def demo_tool_invoke_def dict_merge_def
        render_tool_responses_def)
  have a: "su_action (read_chunks demo_runtime
             [TextChunk ''I need the calculator. '',
              ActionChunk (act ''calculator'' (DictInput [(''expr'', JStr ''2+2'')]))])
           = Some (act ''calculator'' (DictInput [(''expr'', JStr ''2+2'')]))"
    by (simp add: read_chunks_def)
  have l: "lower ''calculator'' \<noteq> ''final answer''"
    by (simp add: lower_def)
  have q: "lc_params (demo_context ''Compute forever'' n) = demo_params ''Compute forever'' n"
    "query (demo_params ''Compute forever'' n) = ''Compute forever''"
    by (simp_all add: demo_context_def demo_params_def)
  show ?thesis
    unfolding never_terminal_def
    using d a l by (auto simp: demo_llm_invoke_def q)
qed

section \<open>Which registry wins\<close>

text \<open>
  C1 as stated: when an action's name is in both registries the local tool is executed, so
  the remote registry would make no difference to the result. It does: with both registries
  the \<^verbatim>\<open>calculator\<close> action gives the remote tool's \<^verbatim>\<open>42\<close>, with the local registry
  alone the local tool's \<^verbatim>\<open>4\<close>.
\<close>

theorem local_tool_wins_counterexample:
  "handle_invoke_action demo_runtime (act ''calculator'' (DictInput [(''expr'', JStr ''2+2'')]))
     (Some demo_execute_tool) demo_tool_instances demo_mcp_tool_instances
     = Inr (JStr ''42'', JObj [(''expr'', JStr ''2+2'')])
   \<and> handle_invoke_action demo_runtime (act ''calculator'' (DictInput [(''expr'', JStr ''2+2'')]))
     (Some demo_execute_tool) demo_tool_instances Map.empty
     = Inr (JStr ''4'', JObj [(''precision'', JInt 2), (''expr'', JStr ''2+2'')])
   \<and> handle_invoke_action demo_runtime (act ''calculator'' (DictInput [(''expr'', JStr ''2+2'')]))
     (Some demo_execute_tool) demo_tool_instances demo_mcp_tool_instances
     \<noteq> handle_invoke_action demo_runtime (act ''calculator'' (DictInput [(''expr'', JStr ''2+2'')]))
     (Some demo_execute_tool) demo_tool_instances Map.empty"
  by (simp add: handle_invoke_action_def coerce_tool_call_args_def invoke_resolved_def
      demo_execute_tool_def render_mcp_content_def subscript_def demo_tool_invoke_def
      calculator_def dict_merge_def render_tool_responses_def)



text \<open>
  C1, amended. When the name is in both registries (the remote entry being a non-empty
  descriptor), the remote tool is executed: the observation is the remote client's
  normalized result, or its error text, and the local runtime's \<^verbatim>\<open>invoke\<close> has no effect
  on the result. The local tool only serves the decoding of the arguments.
\<close>

theorem remote_tool_executed_when_both_match:
  assumes "tis (action_name a) = Some tool"
    and "truthy_dict (mis (action_name a))"
    and "coerce_tool_call_args rt (Some tool) (action_input a) = Inr args"
  shows "handle_invoke_action rt a (Some exec) tis mis =
           Inr (case exec (action_name a) args of
                  Inl e \<Rightarrow> JStr (''tool invoke error: '' @ exc_str e)
                | Inr content \<Rightarrow>
                    (case render_mcp_content rt content of
                       Inl e \<Rightarrow> JStr (''tool invoke error: '' @ exc_str e)
                     | Inr result \<Rightarrow> result),
                args)
         \<and> (\<forall>f. handle_invoke_action (rt\<lparr>tool_invoke := f\<rparr>) a (Some exec) tis mis =
                  handle_invoke_action rt a (Some exec) tis mis)"
proof -
  have c: "coerce_tool_call_args rt (tis (action_name a)) (action_input a) = Inr args"
    using assms by simp
  have r: "tis (action_name a) \<noteq> None \<or> truthy_dict (mis (action_name a))"
    using assms by simp
  have h: "handle_invoke_action rt' a (Some exec) tis mis =
           Inr (case exec (action_name a) args of
                  Inl e \<Rightarrow> JStr (''tool invoke error: '' @ exc_str e)
                | Inr content \<Rightarrow>
                    (case render_mcp_content rt' content of
                       Inl e \<Rightarrow> JStr (''tool invoke error: '' @ exc_str e)
                     | Inr result \<Rightarrow> result),
                args)"
    if "coerce_tool_call_args rt' (tis (action_name a)) (action_input a) = Inr args"
    for rt' :: "'a session_scheme"
    using that r assms(2)
    by (simp add: handle_invoke_action_coerced invoke_resolved_remote split: sum.splits)
  show ?thesis
    using h [of rt, OF c] h [of "rt\<lparr>tool_invoke := f\<rparr>" for f] c by (simp cong: sum.case_cong)
qed

theorem remote_tool_executed_when_both_match_witness:
  "demo_tool_instances ''calculator'' = Some calculator
   \<and> truthy_dict (demo_mcp_tool_instances ''calculator'')
   \<and> coerce_tool_call_args demo_runtime (Some calculator) (StrInput ''{}'') = Inr (JObj [])
   \<and> handle_invoke_action demo_runtime (act ''calculator'' (StrInput ''{}''))
        (Some demo_execute_tool) demo_tool_instances demo_mcp_tool_instances
      = Inr (JStr ''42'', JObj [])"
proof -
  have 1: "demo_tool_instances (action_name (act ''calculator'' (StrInput ''{}''))) = Some calculator"
    by simp
  have 2: "truthy_dict (demo_mcp_tool_instances (action_name (act ''calculator'' (StrInput ''{}''))))"
    by simp
  have 3: "coerce_tool_call_args demo_runtime (Some calculator)
             (action_input (act ''calculator'' (StrInput ''{}''))) = Inr (JObj [])"
    by (simp add: coerce_tool_call_args_def demo_loads_def)
  show ?thesis
    using remote_tool_executed_when_both_match
      [where tis = demo_tool_instances and a = "act ''calculator'' (StrInput ''{}'')"
         and tool = calculator and mis = demo_mcp_tool_instances and rt = demo_runtime
         and args = "JObj []" and exec = demo_execute_tool] 1 2 3
    by (simp add: demo_execute_tool_def render_mcp_content_def subscript_def)
qed

section \<open>Tool failures are observations\<close>



section \<open>The single-parameter fallback\<close>

text \<open>
  C5. A text input that does not decode, for a name the local registry knows: with exactly
  one LLM-form parameter \<open>p\<close> the arguments become \<^verbatim>\<open>{p: text}\<close>, with none the empty
  dict, and with more than one a \<^verbatim>\<open>ValueError\<close> leaves the dispatcher. When no remote tool
  has the name, the parameters handed to the local tool are the runtime parameters
  merged with these arguments.
\<close>

theorem text_argument_fallback:
  assumes "tis (action_name a) = Some tool"
    and "action_input a = StrInput raw"
    and "json_loads rt raw = Inl decode_error"
  shows "(\<forall>p. llm_params tool = [p] \<longrightarrow>
            coerce_tool_call_args rt (tis (action_name a)) (action_input a)
              = Inr (JObj [(p, JStr raw)]))
       \<and> (llm_params tool = [] \<longrightarrow>
            coerce_tool_call_args rt (tis (action_name a)) (action_input a) = Inr (JObj []))
       \<and> (length (llm_params tool) > 1 \<longrightarrow>
            handle_invoke_action rt a mc tis mis =
              Inl (Exn ValueError ''tool call args is not a valid json string''))
       \<and> (\<not> truthy_dict (mis (action_name a)) \<longrightarrow>
            (\<forall>p. llm_params tool = [p] \<longrightarrow>
               (\<exists>obs. handle_invoke_action rt a mc tis mis =
                  Inr (obs, JObj (dict_merge (runtime_parameters tool) [(p, JStr raw)]))))
          \<and> (llm_params tool = [] \<longrightarrow>
               (\<exists>obs. handle_invoke_action rt a mc tis mis =
                  Inr (obs, JObj (dict_merge (runtime_parameters tool) [])))))"
proof -
  have one: "coerce_tool_call_args rt (tis (action_name a)) (action_input a)
               = Inr (JObj [(p, JStr raw)])" if "llm_params tool = [p]" for p
    using assms that by (simp add: coerce_tool_call_args_def)
  have zero: "coerce_tool_call_args rt (tis (action_name a)) (action_input a) = Inr (JObj [])"
    if "llm_params tool = []"
    using assms that by (simp add: coerce_tool_call_args_def)
  have many: "handle_invoke_action rt a mc tis mis =
                Inl (Exn ValueError ''tool call args is not a valid json string'')"
    if "length (llm_params tool) > 1"
    using assms that by (simp add: handle_invoke_action_def coerce_tool_call_args_def)
  have res: "tis (action_name a) \<noteq> None \<or> truthy_dict (mis (action_name a))"
    using assms by simp
  have local: "\<exists>obs. handle_invoke_action rt a mc tis mis =
                  Inr (obs, JObj (dict_merge (runtime_parameters tool) d))"
    if "\<not> truthy_dict (mis (action_name a))"
      and "coerce_tool_call_args rt (tis (action_name a)) (action_input a) = Inr (JObj d)" for d
    using that assms(1)
    by (simp add: handle_invoke_action_coerced [where tis = tis and mis = mis and a = a, OF res]
        invoke_resolved_local split: sum.splits)
  show ?thesis
    using one zero many local by blast
qed

theorem text_argument_fallback_witness:
  "coerce_tool_call_args demo_runtime (demo_tool_instances ''calculator'') (StrInput ''two plus two'')
     = Inr (JObj [(''expr'', JStr ''two plus two'')])
   \<and> coerce_tool_call_args demo_runtime (demo_tool_instances ''clock'') (StrInput ''now'')
     = Inr (JObj [])
   \<and> handle_invoke_action demo_runtime (act ''converter'' (StrInput ''3 miles''))
        (Some demo_execute_tool) demo_tool_instances demo_mcp_tool_instances
     = Inl (Exn ValueError ''tool call args is not a valid json string'')"
  using text_argument_fallback
    [of demo_tool_instances "act ''calculator'' (StrInput ''two plus two'')" calculator
        "''two plus two''" demo_runtime "''Expecting value: line 1 column 1 (char 0)''"
        "Some demo_execute_tool" demo_mcp_tool_instances]
    text_argument_fallback
    [of demo_tool_instances "act ''clock'' (StrInput ''now'')" clock
        "''now''" demo_runtime "''Expecting value: line 1 column 1 (char 0)''"
        "Some demo_execute_tool" demo_mcp_tool_instances]
    text_argument_fallback
    [of demo_tool_instances "act ''converter'' (StrInput ''3 miles'')" converter
        "''3 miles''" demo_runtime "''Expecting value: line 1 column 1 (char 0)''"
        "Some demo_execute_tool" demo_mcp_tool_instances]
  by (simp add: demo_loads_def)

section \<open>Tool not found\<close>

text \<open>
  C6. An action whose name matches neither a local tool nor a remote tool is not an
  error: the dispatcher returns the observation \<^verbatim>\<open>there is not a tool named <name>\<close>,
  with the action's input untouched.
\<close>

theorem tool_not_found_observation:
  assumes "tool_instances (action_name action) = None"
    and "\<not> truthy_dict (mcp_tool_instances (action_name action))"
  shows "handle_invoke_action rt action mcp_clients tool_instances mcp_tool_instances =
           Inr (JStr (''there is not a tool named '' @ action_name action),
                json_of_input (action_input action))"
  using assms by (simp add: handle_invoke_action_def)

theorem tool_not_found_observation_witness:
  "handle_invoke_action demo_runtime (act ''unknown_tool'' (StrInput ''x'')) (Some demo_execute_tool)
     [''calculator'' \<mapsto> calculator] [''fetch'' \<mapsto> [(''name'', JStr ''fetch'')]]
   = Inr (JStr ''there is not a tool named unknown_tool'', JStr ''x'')"
  using tool_not_found_observation [of "[''calculator'' \<mapsto> calculator]"
      "act ''unknown_tool'' (StrInput ''x'')" "[''fetch'' \<mapsto> [(''name'', JStr ''fetch'')]]"
      demo_runtime "Some demo_execute_tool"]
  by (simp add: act_def)

section \<open>Normalization of a remote result\<close>

text \<open>
  C7. The result of a remote tool: one item of type \<^verbatim>\<open>text\<close> gives its text as it is, one
  item of type \<^verbatim>\<open>resource\<close> the JSON rendering of its \<^verbatim>\<open>resource\<close> entry, one item of any
  other type the JSON rendering of the item, and two or more items the JSON rendering of
  the whole list.
\<close>

theorem remote_result_normalization:
  assumes "truthy_dict (mis (action_name a))"
    and "coerce_tool_call_args rt (tis (action_name a)) (action_input a) = Inr args"
    and "exec (action_name a) args = Inr content"
  shows "(\<forall>item v. content = [item] \<and> map_of item ''type'' = Some (JStr ''text'')
              \<and> map_of item ''text'' = Some v \<longrightarrow>
            handle_invoke_action rt a (Some exec) tis mis = Inr (v, args))
       \<and> (\<forall>item r. content = [item] \<and> map_of item ''type'' = Some (JStr ''resource'')
              \<and> map_of item ''resource'' = Some r \<longrightarrow>
            handle_invoke_action rt a (Some exec) tis mis = Inr (JStr (json_dumps rt r), args))
       \<and> (\<forall>item t. content = [item] \<and> map_of item ''type'' = Some t
              \<and> t \<noteq> JStr ''text'' \<and> t \<noteq> JStr ''resource'' \<longrightarrow>
            handle_invoke_action rt a (Some exec) tis mis =
              Inr (JStr (json_dumps rt (JObj item)), args))
       \<and> (length content \<ge> 2 \<longrightarrow>
            handle_invoke_action rt a (Some exec) tis mis =
              Inr (JStr (json_dumps rt (JArr (map JObj content))), args))"
proof -
  have res: "tis (action_name a) \<noteq> None \<or> truthy_dict (mis (action_name a))"
    using assms by simp
  have h: "handle_invoke_action rt a (Some exec) tis mis =
             (case render_mcp_content rt content of
                Inl e \<Rightarrow> Inr (JStr (''tool invoke error: '' @ exc_str e), args)
              | Inr result \<Rightarrow> Inr (result, args))"
    using assms
    by (simp add: handle_invoke_action_coerced [where tis = tis and mis = mis and a = a, OF res]
        invoke_resolved_remote split: sum.splits)
  show ?thesis
    unfolding h by (auto simp: render_mcp_content_def subscript_def Let_def)
qed

theorem remote_result_normalization_witness:
  "handle_invoke_action demo_runtime (act ''calculator'' (DictInput []))
     (Some demo_execute_tool) demo_tool_instances demo_mcp_tool_instances
     = Inr (JStr ''42'', JObj [])
   \<and> handle_invoke_action demo_runtime (act ''fetch'' (DictInput []))
     (Some demo_execute_tool) demo_tool_instances demo_mcp_tool_instances
     = Inr (JStr ''{\"uri\": \"file:///a\"}'', JObj [])
   \<and> handle_invoke_action demo_runtime (act ''snapshot'' (DictInput []))
     (Some demo_execute_tool) demo_tool_instances demo_mcp_tool_instances
     = Inr (JStr ''{\"type\": \"image\", \"data\": \"AAAA\"}'', JObj [])
   \<and> handle_invoke_action demo_runtime (act ''pair'' (DictInput []))
     (Some demo_execute_tool) demo_tool_instances demo_mcp_tool_instances
     = Inr (JStr ''[{\"type\": \"text\", \"text\": \"a\"}, {\"type\": \"text\", \"text\": \"b\"}]'',
            JObj [])"
proof -
  have c: "coerce_tool_call_args demo_runtime (demo_tool_instances (action_name (act n (DictInput []))))
             (action_input (act n (DictInput []))) = Inr (JObj [])" for n
    by (simp add: coerce_tool_call_args_def)
  have 1: "demo_execute_tool (action_name (act ''calculator'' (DictInput []))) (JObj [])
             = Inr [[(''type'', JStr ''text''), (''text'', JStr ''42'')]]"
    and 2: "demo_execute_tool (action_name (act ''fetch'' (DictInput []))) (JObj [])
             = Inr [[(''type'', JStr ''resource''), (''resource'', JObj [(''uri'', JStr ''file:///a'')])]]"
    and 3: "demo_execute_tool (action_name (act ''snapshot'' (DictInput []))) (JObj [])
             = Inr [[(''type'', JStr ''image''), (''data'', JStr ''AAAA'')]]"
    and 4: "demo_execute_tool (action_name (act ''pair'' (DictInput []))) (JObj [])
             = Inr [[(''type'', JStr ''text''), (''text'', JStr ''a'')],
                    [(''type'', JStr ''text''), (''text'', JStr ''b'')]]"
    by (simp_all add: demo_execute_tool_def)
  show ?thesis
    using remote_result_normalization
        [where mis = demo_mcp_tool_instances and tis = demo_tool_instances and rt = demo_runtime
           and a = "act ''calculator'' (DictInput [])" and args = "JObj []"
           and exec = demo_execute_tool, OF _ c 1]
      remote_result_normalization
        [where mis = demo_mcp_tool_instances and tis = demo_tool_instances and rt = demo_runtime
           and a = "act ''fetch'' (DictInput [])" and args = "JObj []"
           and exec = demo_execute_tool, OF _ c 2]
      remote_result_normalization
        [where mis = demo_mcp_tool_instances and tis = demo_tool_instances and rt = demo_runtime
           and a = "act ''snapshot'' (DictInput [])" and args = "JObj []"
           and exec = demo_execute_tool, OF _ c 3]
      remote_result_normalization
        [where mis = demo_mcp_tool_instances and tis = demo_tool_instances and rt = demo_runtime
           and a = "act ''pair'' (DictInput [])" and args = "JObj []"
           and exec = demo_execute_tool, OF _ c 4]
    by (simp add: encode_str_def escape_char_def)
qed

section \<open>A text input for a remote-only tool\<close>

text \<open>
  C9. When the name is known to the remote registry only and the input is a text that
  does not decode as JSON, the fallback reads the parameters of the absent local tool:
  the dispatcher raises \<^verbatim>\<open>AttributeError\<close> instead of returning an observation.
\<close>

theorem uncaught_when_only_remote_and_text_undecodable:
  assumes "tis (action_name a) = None"
    and "truthy_dict (mis (action_name a))"
    and "action_input a = StrInput raw"
    and "json_loads rt raw = Inl decode_error"
  shows "handle_invoke_action rt a mc tis mis = Inl (none_has_no_attribute ''parameters'')"
  using assms by (simp add: handle_invoke_action_def coerce_tool_call_args_def)

theorem uncaught_when_only_remote_and_text_undecodable_witness:
  "handle_invoke_action demo_runtime (act ''fetch'' (StrInput ''the readme file''))
     (Some demo_execute_tool) demo_tool_instances demo_mcp_tool_instances
   = Inl (Exn AttributeError
            (CHR 0x27 # ''NoneType'' @ CHR 0x27 # '' object has no attribute '' @
             CHR 0x27 # ''parameters'' @ [CHR 0x27]))"
  using uncaught_when_only_remote_and_text_undecodable
    [of demo_tool_instances "act ''fetch'' (StrInput ''the readme file'')"
        demo_mcp_tool_instances "''the readme file''" demo_runtime
        "''Expecting value: line 1 column 1 (char 0)''" "Some demo_execute_tool"]
  by (simp add: demo_loads_def none_has_no_attribute_def squote_def)

section \<open>Budget exhaustion\<close>

text \<open>
  C2 as stated: when every round dispatches a tool call, the final answer is the last
  round's thought, not the empty string. With a budget of two and a model that always
  asks for the calculator the last thought is \<^verbatim>\<open>I need the calculator.\<close>, and the
  text message emitted is the empty string.
\<close>

theorem last_thought_as_answer_counterexample:
  "invoke demo_runtime (demo_params ''Compute forever'' 2) =
     ([RoundStart 1, ThoughtStart 1,
       ThoughtFinish 1 ''I need the calculator.''
         (JObj [(''action'', JStr ''calculator''),
                (''action_input'', JObj [(''expr'', JStr ''2+2'')])]),
       ToolCallStart 1 ''calculator'',
       ToolCallFinish 1 ''calculator''
         (JObj [(''precision'', JInt 2), (''expr'', JStr ''2+2'')]) (JStr ''4''),
       RoundFinish 1 ''calculator'' (JObj [(''expr'', JStr ''2+2'')])
         ''I need the calculator.'' (JStr ''4''),
       RoundStart 2, ThoughtStart 2,
       ThoughtFinish 2 ''I need the calculator.''
         (JObj [(''action'', JStr ''calculator''),
                (''action_input'', JObj [(''expr'', JStr ''2+2'')])]),
       ToolCallStart 2 ''calculator'',
       ToolCallFinish 2 ''calculator''
         (JObj [(''precision'', JInt 2), (''expr'', JStr ''2+2'')]) (JStr ''4''),
       RoundFinish 2 ''calculator'' (JObj [(''expr'', JStr ''2+2'')])
         ''I need the calculator.'' (JStr ''4''),
       TextMessage [], JsonMessage (3 / 500) ''USD'' 42],
      None)
   \<and> TextMessage ''I need the calculator.''
       \<notin> set (fst (invoke demo_runtime (demo_params ''Compute forever'' 2)))"
  by code_simp

text \<open>
  C2, amended. If preparation succeeds, the budget is at least one, the model never
  emits a terminal unit and every dispatch returns, then the invocation ends normally
  after exactly \<^verbatim>\<open>maximum_iterations\<close> rounds and the final answer emitted is the empty
  string: \<^verbatim>\<open>final_answer\<close> is only assigned in a terminal round.
\<close>

theorem budget_exhausted_answer_is_empty:
  assumes "prepare rt ps = Inr (cx, s0)"
    and "1 \<le> maximum_iterations ps"
    and "close_clients (lc_mcp_clients cx) = None"
    and "never_terminal rt cx"
  shows "\<exists>s. react_loop rt cx s0 = (s, None)
             \<and> rounds_started (yielded s) = [1 .. maximum_iterations ps]
             \<and> final_answer s = []
             \<and> invoke rt ps = (yielded s @ [TextMessage [], usage_summary (llm_usage s)], None)"
proof -
  note pf = prepare_fields [OF assms(1)]
  have "iteration_step s0 \<le> lc_max_iteration_steps cx + 1"
    using pf assms(2) by simp
  then obtain s where l: "react_loop rt cx s0 = (s, None)" and f: "final_answer s = []"
    and i: "iteration_step s = lc_max_iteration_steps cx + 1"
    using never_terminal_loop [OF assms(4), of s0] pf by auto
  have "rounds_inv cx s0"
    using pf assms(2) by (simp add: rounds_inv_def)
  then have "rounds_inv cx s"
    using l by (rule react_loop_keeps_inv)
  then have r: "rounds_started (yielded s) = [1 .. maximum_iterations ps]"
    using i pf by (simp add: rounds_inv_def)
  have "invoke rt ps = (yielded s @ [TextMessage [], usage_summary (llm_usage s)], None)"
    using assms(1,3) l f by (simp add: invoke_def finish_def)
  with l r f show ?thesis by blast
qed

theorem budget_exhausted_answer_is_empty_witness:
  "snd (invoke demo_runtime (demo_params ''Compute forever'' 2)) = None
   \<and> TextMessage [] \<in> set (fst (invoke demo_runtime (demo_params ''Compute forever'' 2)))
   \<and> rounds_started (fst (invoke demo_runtime (demo_params ''Compute forever'' 2))) = [1, 2]"
proof -
  have c: "close_clients (lc_mcp_clients (demo_context ''Compute forever'' 2)) = None"
    by (simp add: close_clients_def demo_context_def)
  have n: "1 \<le> maximum_iterations (demo_params ''Compute forever'' 2)"
    by (simp add: demo_params_def)
  have m: "maximum_iterations (demo_params ''Compute forever'' 2) = 2"
    by (simp add: demo_params_def)
  have u: "[1 .. 2] = [1, 2::int]"
    by (simp add: upto.simps)
  obtain s :: loop_state
    where "rounds_started (yielded s) = [1 .. maximum_iterations (demo_params ''Compute forever'' 2)]"
    and "invoke demo_runtime (demo_params ''Compute forever'' 2)
           = (yielded s @ [TextMessage [], usage_summary (llm_usage s)], None)"
    using budget_exhausted_answer_is_empty [OF prepare_demo n c demo_never_terminal]
    by blast
  then show ?thesis
    by (simp add: m u usage_summary_def split: option.splits)
qed

section \<open>Rounds within the budget\<close>

text \<open>
  C3 as stated: no tool call is dispatched on round \<open>N\<close>. With a budget of one and a
  model that asks for the calculator, the call is dispatched on round one, the last.
\<close>

theorem tool_call_on_last_round_counterexample:
  "maximum_iterations (demo_params ''Compute forever'' 1) = 1
   \<and> invoke demo_runtime (demo_params ''Compute forever'' 1) =
     ([RoundStart 1, ThoughtStart 1,
       ThoughtFinish 1 ''I need the calculator.''
         (JObj [(''action'', JStr ''calculator''),
                (''action_input'', JObj [(''expr'', JStr ''2+2'')])]),
       ToolCallStart 1 ''calculator'',
       ToolCallFinish 1 ''calculator''
         (JObj [(''precision'', JInt 2), (''expr'', JStr ''2+2'')]) (JStr ''4''),
       RoundFinish 1 ''calculator'' (JObj [(''expr'', JStr ''2+2'')])
         ''I need the calculator.'' (JStr ''4''),
       TextMessage [], JsonMessage (3 / 1000) ''USD'' 21],
      None)
   \<and> ToolCallStart 1 ''calculator''
       \<in> set (fst (invoke demo_runtime (demo_params ''Compute forever'' 1)))"
  by code_simp

text \<open>
  C3, amended. For a budget \<open>N\<close> of at least one the loop runs the rounds \<open>1, ..., k\<close>
  for some \<open>k\<close> up to \<open>N\<close>, one model call each, and the model call of round \<open>N\<close> gets
  the empty catalogue. A tool call is still dispatched on round \<open>N\<close> whenever the model's
  reply there holds an action that is not the terminal one.
\<close>

theorem rounds_within_budget:
  assumes "prepare rt ps = Inr (cx, s0)"
    and "1 \<le> maximum_iterations ps"
    and "sf = fst (react_loop rt cx s0)"
  shows "(\<exists>k. k \<le> maximum_iterations ps
            \<and> rounds_started (yielded sf) = [1 .. k]
            \<and> map fst (model_calls sf) = [1 .. k])
       \<and> (\<forall>ts. (maximum_iterations ps, ts) \<in> set (model_calls sf) \<longrightarrow> ts = [])
       \<and> (\<forall>s chunks u a.
             iteration_step s = maximum_iterations ps
             \<and> llm_invoke rt ps (lc_stop cx) [] (agent_scratchpad s) = Inr (chunks, u)
             \<and> su_action (read_chunks rt chunks) = Some a
             \<and> lower (action_name a) \<noteq> ''final answer'' \<longrightarrow>
             ToolCallStart (maximum_iterations ps) (action_name a)
               \<in> set (yielded (fst (react_round rt cx s))))"
proof -
  note pf = prepare_fields [OF assms(1)]
  have "rounds_inv cx s0"
    using pf assms(2) by (simp add: rounds_inv_def)
  then have "rounds_bounded cx sf"
    unfolding assms(3) by (rule react_loop_rounds_bounded)
  then have 1: "\<exists>k. k \<le> maximum_iterations ps
            \<and> rounds_started (yielded sf) = [1 .. k]
            \<and> map fst (model_calls sf) = [1 .. k]"
    and 2: "\<forall>ts. (maximum_iterations ps, ts) \<in> set (model_calls sf) \<longrightarrow> ts = []"
    unfolding rounds_bounded_def pf by blast+
  have 3: "ToolCallStart (maximum_iterations ps) (action_name a)
               \<in> set (yielded (fst (react_round rt cx s)))"
    if "iteration_step s = maximum_iterations ps"
      and "llm_invoke rt ps (lc_stop cx) [] (agent_scratchpad s) = Inr (chunks, u)"
      and "su_action (read_chunks rt chunks) = Some a"
      and "lower (action_name a) \<noteq> ''final answer''" for s chunks u a
  proof -
    have l: "llm_invoke rt (lc_params cx) (lc_stop cx) (prompt_messages_tools (begin_round cx s))
               (agent_scratchpad s) = Inr (chunks, u)"
      using that(1,2) pf by simp
    show ?thesis
      using react_round_calls_tool [OF l that(3,4)] that(1) by simp
  qed
  from 1 2 3 show ?thesis by blast
qed

theorem rounds_within_budget_witness:
  "(\<exists>k. k \<le> 2
      \<and> rounds_started (yielded (fst (react_loop demo_runtime
            (demo_context ''Compute forever'' 2) demo_start))) = [1 .. k]
      \<and> map fst (model_calls (fst (react_loop demo_runtime
            (demo_context ''Compute forever'' 2) demo_start))) = [1 .. k])
   \<and> model_calls (fst (react_loop demo_runtime (demo_context ''Compute forever'' 2) demo_start))
       = [(1, [\<lparr>pt_name = ''calculator'', pt_description = [], pt_parameters = JObj []\<rparr>]),
          (2, [])]
   \<and> ToolCallStart 2 ''calculator''
       \<in> set (yielded (fst (react_loop demo_runtime (demo_context ''Compute forever'' 2)
                  demo_start)))"
proof -
  have n: "1 \<le> maximum_iterations (demo_params ''Compute forever'' 2)"
    and m: "maximum_iterations (demo_params ''Compute forever'' 2) = 2"
    by (simp_all add: demo_params_def)
  have 1: "\<exists>k. k \<le> 2
      \<and> rounds_started (yielded (fst (react_loop demo_runtime
            (demo_context ''Compute forever'' 2) demo_start))) = [1 .. k]
      \<and> map fst (model_calls (fst (react_loop demo_runtime
            (demo_context ''Compute forever'' 2) demo_start))) = [1 .. k]"
    using rounds_within_budget [OF prepare_demo n refl] unfolding m by blast
  have 2: "model_calls (fst (react_loop demo_runtime (demo_context ''Compute forever'' 2) demo_start))
       = [(1, [\<lparr>pt_name = ''calculator'', pt_description = [], pt_parameters = JObj []\<rparr>]),
          (2, [])]"
    by code_simp
  have 3: "ToolCallStart 2 ''calculator''
       \<in> set (yielded (fst (react_loop demo_runtime (demo_context ''Compute forever'' 2)
                  demo_start)))"
    by code_simp
  from 1 2 3 show ?thesis by blast
qed

section \<open>Terminal rounds\<close>

text \<open>
  C8. After a round whose model call returned, the loop's continue flag is off exactly
  when no action was parsed or the action's name, lowered, is \<^verbatim>\<open>final answer\<close>. Then the
  round does not raise, the answer is the thought (no action) or the action's input (a
  text as it is, a dict JSON-rendered), and the loop stops there. Otherwise the round
  leaves the answer as it was.
\<close>

theorem terminal_iff_no_action_or_final_answer:
  assumes "llm_invoke rt (lc_params cx) (lc_stop cx) (prompt_messages_tools (begin_round cx s))
             (agent_scratchpad s) = Inr (chunks, usage_slot)"
    and "u = read_chunks rt chunks"
    and "r = react_round rt cx s"
  shows "((\<not> run_agent_state (fst r)) \<longleftrightarrow>
            (su_action u = None \<or>
             (\<exists>a. su_action u = Some a \<and> lower (action_name a) = ''final answer'')))
       \<and> (su_action u = None \<longrightarrow> snd r = None \<and> final_answer (fst r) = su_thought u)
       \<and> (\<forall>a. su_action u = Some a \<and> lower (action_name a) = ''final answer'' \<longrightarrow>
             snd r = None \<and>
             final_answer (fst r) =
               (case action_input a of
                  DictInput d \<Rightarrow> json_dumps_ascii rt (JObj d)
                | StrInput t \<Rightarrow> t))
       \<and> (\<not> run_agent_state (fst r) \<longrightarrow> react_loop rt cx (fst r) = (fst r, None))
       \<and> (run_agent_state (fst r) \<longrightarrow> final_answer (fst r) = final_answer s)"
proof -
  note rc = react_round_cases [OF assms(1), folded assms(2)]
  have 1: "(\<not> run_agent_state (fst r)) \<longleftrightarrow>
           (su_action u = None \<or> (\<exists>a. su_action u = Some a \<and> lower (action_name a) = ''final answer''))"
    unfolding assms(3) rc by (simp add: decide_run_agent_state)
  have 2: "\<not> run_agent_state (fst r) \<longrightarrow> react_loop rt cx (fst r) = (fst r, None)"
    by (simp add: react_loop_stop)
  have 3: "su_action u = None \<longrightarrow> snd r = None \<and> final_answer (fst r) = su_thought u"
    unfolding assms(3) rc by (simp add: decide_final_answer decide_terminal_returns)
  have 4: "\<forall>a. su_action u = Some a \<and> lower (action_name a) = ''final answer'' \<longrightarrow>
           snd r = None \<and>
           final_answer (fst r) =
             (case action_input a of DictInput d \<Rightarrow> json_dumps_ascii rt (JObj d) | StrInput t \<Rightarrow> t)"
    unfolding assms(3) rc by (simp add: decide_final_answer decide_terminal_returns)
  have 5: "run_agent_state (fst r) \<longrightarrow> final_answer (fst r) = final_answer s"
    unfolding assms(3) rc
    by (auto simp: decide_final_answer decide_run_agent_state split: option.splits if_splits)
  from 1 2 3 4 5 show ?thesis by blast
qed

theorem terminal_iff_no_action_or_final_answer_witness:
  "\<not> run_agent_state
       (fst (react_round demo_runtime (demo_context ''What is 2+2?'' 3)
          (fst (react_round demo_runtime (demo_context ''What is 2+2?'' 3) demo_start))))
   \<and> final_answer
       (fst (react_round demo_runtime (demo_context ''What is 2+2?'' 3)
          (fst (react_round demo_runtime (demo_context ''What is 2+2?'' 3) demo_start)))) = ''4''
   \<and> run_agent_state (fst (react_round demo_runtime (demo_context ''What is 2+2?'' 3) demo_start))"
proof -
  let ?cx = "demo_context ''What is 2+2?'' 3"
  let ?s1 = "fst (react_round demo_runtime ?cx demo_start)"
  let ?c1 = "[TextChunk ''I need the calculator. '',
              ActionChunk (act ''calculator'' (DictInput [(''expr'', JStr ''2+2'')]))]"
  let ?c2 = "[TextChunk ''The calculator says 4. '',
              ActionChunk (act ''Final Answer'' (StrInput ''4''))]"
  have h1: "llm_invoke demo_runtime (lc_params ?cx) (lc_stop ?cx)
              (prompt_messages_tools (begin_round ?cx demo_start)) (agent_scratchpad demo_start)
            = Inr (?c1, Some (Some demo_usage))"
    by code_simp
  have h2: "llm_invoke demo_runtime (lc_params ?cx) (lc_stop ?cx)
              (prompt_messages_tools (begin_round ?cx ?s1)) (agent_scratchpad ?s1)
            = Inr (?c2, Some (Some demo_usage))"
    by code_simp
  have a1: "su_action (read_chunks demo_runtime ?c1)
              = Some (act ''calculator'' (DictInput [(''expr'', JStr ''2+2'')]))"
    by code_simp
  have a2: "su_action (read_chunks demo_runtime ?c2) = Some (act ''Final Answer'' (StrInput ''4''))"
    by code_simp
  have l1: "lower ''calculator'' \<noteq> ''final answer''" by code_simp
  have l2: "lower ''Final Answer'' = ''final answer''" by code_simp
  show ?thesis
    using terminal_iff_no_action_or_final_answer [OF h1 refl refl]
      terminal_iff_no_action_or_final_answer [OF h2 refl refl] a1 a2 l1 l2
    by simp
qed

section \<open>A budget that is not positive\<close>

text \<open>
  C10. The budget is not validated: when preparation succeeds for the parameters, it
  succeeds with any budget in its place, and with a budget of zero or less the loop runs
  no round and the invocation emits the empty answer and the zero usage summary.
\<close>

theorem non_positive_budget_runs_no_round:
  assumes "prepare rt ps = Inr (cx, s0)"
    and "n \<le> 0"
    and "close_clients (lc_mcp_clients cx) = None"
  shows "invoke rt (ps\<lparr>maximum_iterations := n\<rparr>) = ([TextMessage [], JsonMessage 0 [] 0], None)"
proof -
  let ?cx = "cx\<lparr>lc_params := ps\<lparr>maximum_iterations := n\<rparr>, lc_max_iteration_steps := n\<rparr>"
  have p: "prepare rt (ps\<lparr>maximum_iterations := n\<rparr>) = Inr (?cx, s0)"
    using assms(1) by (simp add: prepare_ignores_budget)
  have "\<not> (run_agent_state s0 \<and> iteration_step s0 \<le> lc_max_iteration_steps ?cx)"
    using prepare_fields(4) [OF assms(1)] assms(2) by simp
  then have l: "react_loop rt ?cx s0 = (s0, None)"
    by (rule react_loop_stop)
  have f: "finish ?cx s0 =
             (s0\<lparr>yielded := [TextMessage [], JsonMessage 0 [] 0]\<rparr>, None)"
    using assms(3) prepare_fields [OF assms(1)]
    by (simp add: finish_def usage_summary_def)
  show ?thesis
    by (simp add: invoke_def p l f)
qed

theorem non_positive_budget_runs_no_round_witness:
  "invoke demo_runtime (demo_params ''What is 2+2?'' 0) = ([TextMessage [], JsonMessage 0 [] 0], None)
   \<and> invoke demo_runtime (demo_params ''What is 2+2?'' (- 5)) = ([TextMessage [], JsonMessage 0 [] 0], None)"
proof -
  have c: "close_clients (lc_mcp_clients (demo_context ''What is 2+2?'' 3)) = None"
    by (simp add: close_clients_def demo_context_def)
  have u: "(demo_params q 3)\<lparr>maximum_iterations := n\<rparr> = demo_params q n" for q n
    by (simp add: demo_params_def)
  show ?thesis
    using non_positive_budget_runs_no_round [OF prepare_demo _ c, of 0]
      non_positive_budget_runs_no_round [OF prepare_demo _ c, of "- 5"]
    by (simp add: u)
qed

end
